theory Spec2Isabelle
  imports Main "HOL-Library.Word"
begin

unbundle bit_operations_syntax

section \<open>Shared data model\<close>

text \<open>
  A Go \<open>error\<close> value carries a message; a run-time panic is kept apart from an
  ordinary error, since the caller cannot handle it as a returned value.
\<close>

datatype error = Error string | Panic string

text \<open>
  The part of the compose-go project tree (\<open>types.Project\<close>) that the code under
  study reads. Go maps are association lists whose order is the order in which that
  run of the program iterates the map; a map of pointers has optional values, and a
  \<open>nil\<close> map is \<open>None\<close>.
\<close>

record ServiceDependency =
  Required :: bool

record ServiceNetworkConfig =
  Ipv4Address :: string

record BuildConfig =
  Context :: string

record ServiceConfig =
  Name :: string
  ContainerName :: string
  Image :: string
  Build :: "BuildConfig option"
  DependsOn :: "(string \<times> ServiceDependency) list"
  Networks :: "(string \<times> ServiceNetworkConfig option) list option"

record IPAMPool =
  Subnet :: string
  Gateway :: string

record NetworkConfig =
  NetworkName :: string
  External :: bool
  IpamConfig :: "IPAMPool list"

record Project =
  Services :: "(string \<times> ServiceConfig) list"
  ProjectNetworks :: "(string \<times> NetworkConfig) list"

text \<open>The zero value that a Go map lookup returns for a missing service.\<close>

definition zeroServiceConfig :: ServiceConfig where
  "zeroServiceConfig =
     \<lparr>Name = [], ContainerName = [], Image = [], Build = None, DependsOn = [],
      Networks = None\<rparr>"

definition lookupService :: "(string \<times> ServiceConfig) list \<Rightarrow> string \<Rightarrow> ServiceConfig" where
  "lookupService m k = (case map_of m k of None \<Rightarrow> zeroServiceConfig | Some s \<Rightarrow> s)"

section \<open>OCI manifest assembler: \<open>oci/manifest.go\<close>\<close>

text \<open>
  A Go \<open>map[string]V\<close> that is marshalled or handed on is an association list;
  \<open>mapStore\<close> is the assignment \<open>m[k] = v\<close>.
\<close>

fun mapStore :: "string \<Rightarrow> 'v \<Rightarrow> (string \<times> 'v) list \<Rightarrow> (string \<times> 'v) list" where
  "mapStore k v [] = [(k, v)]"
| "mapStore k v (p # ps) = (if fst p = k then (k, v) # ps else p # mapStore k v ps)"

record Platform =
  PlatformArchitecture :: string
  PlatformOS :: string
  PlatformOSVersion :: string
  PlatformOSFeatures :: "string list"

text \<open>\<open>ocispec.Descriptor\<close>; a digest is its printed form.\<close>

record Descriptor =
  MediaType :: string
  Digest :: string
  Size :: int
  Annotations :: "(string \<times> string) list"
  DescPlatform :: "Platform option"

record Blob =
  blobDesc :: Descriptor
  blobTmp :: string
  blobSrc :: string
  removeAfterSave :: bool

record Layer =
  blob :: Blob
  dst :: string
  layerTmp :: string

record ImageConfig =
  Labels :: "(string \<times> string) list option"
  Cmd :: "string list"
  Env :: "string list"

record RootFS =
  RootFSType :: string
  DiffIDs :: "string list"

text \<open>\<open>ocispec.Image\<close>, the image config that \<open>Save\<close> marshals.\<close>

record Image =
  Architecture :: string
  OS :: string
  OSVersion :: string
  OSFeatures :: "string list"
  Config :: ImageConfig
  RootFS :: RootFS

record OciManifest =
  SchemaVersion :: int
  ManifestMediaType :: string
  ManifestConfig :: Descriptor
  ManifestLayers :: "Descriptor list"
  ManifestAnnotations :: "(string \<times> string) list"

text \<open>
  \<open>type Manifest struct\<close> (lines 35-47). The handler is passed beside the manifest.
  \<open>manifest\<close>, \<open>desc\<close> and \<open>annotations\<close> are \<open>nil\<close> until they are set.
\<close>

record Manifest =
  saved :: bool
  config :: Image
  manifest :: "OciManifest option"
  desc :: "Descriptor option"
  layers :: "Layer list"
  pushed :: "(string \<times> bool) list"
  annotations :: "(string \<times> string) list option"

definition MediaTypeImageLayer :: string where
  "MediaTypeImageLayer = ''application/vnd.oci.image.layer.v1.tar''"

definition MediaTypeImageConfig :: string where
  "MediaTypeImageConfig = ''application/vnd.oci.image.config.v1+json''"

definition MediaTypeImageManifest :: string where
  "MediaTypeImageManifest = ''application/vnd.oci.image.manifest.v1+json''"

definition AnnotationRefName :: string where
  "AnnotationRefName = ''org.opencontainers.image.ref.name''"

definition AnnotationCreated :: string where
  "AnnotationCreated = ''org.opencontainers.image.created''"

text \<open>
  \<open>images.AnnotationImageName\<close> of containerd (the specification writes this key
  as \<open>containerd.io/image.name\<close>).
\<close>

definition AnnotationImageName :: string where
  "AnnotationImageName = ''io.containerd.image.name''"

text \<open>
  Modelled from the spec: the constants of \<open>oci/well_known.go\<close>, which is not under
  \<open>src/\<close>. Section 6 of the specification gives the three layer annotations and the
  in-image destinations they are mapped to; the key of the tool-version annotation is
  not given there and is a parameter of \<open>Save\<close>'s environment.
\<close>

definition AnnotationKernelPath :: string where
  "AnnotationKernelPath = ''org.unikraft.kernel.path''"

definition AnnotationKernelDbgPath :: string where
  "AnnotationKernelDbgPath = ''org.unikraft.kernel.dbg.path''"

definition AnnotationKernelInitrdPath :: string where
  "AnnotationKernelInitrdPath = ''org.unikraft.initrd.path''"

definition WellKnownKernelPath :: string where
  "WellKnownKernelPath = ''/unikraft/bin/kernel''"

definition WellKnownKernelDbgPath :: string where
  "WellKnownKernelDbgPath = ''/unikraft/bin/kernel.dbg''"

definition WellKnownInitrdPath :: string where
  "WellKnownInitrdPath = ''/unikraft/initrd''"

text \<open>\<open>NewManifest\<close> (lines 51-66).\<close>

definition NewManifest :: Manifest where
  "NewManifest =
     \<lparr>saved = False,
      config = \<lparr>Architecture = [], OS = [], OSVersion = [], OSFeatures = [],
                Config = \<lparr>Labels = None, Cmd = [], Env = []\<rparr>,
                RootFS = \<lparr>RootFSType = [], DiffIDs = []\<rparr>\<rparr>,
      manifest = None, desc = None, layers = [], pushed = [], annotations = None\<rparr>"

text \<open>\<open>AddLayer\<close> for a layer that is not \<open>nil\<close> (lines 128-146).\<close>

definition AddLayer :: "Manifest \<Rightarrow> Layer \<Rightarrow> Manifest" where
  "AddLayer m layer =
     m\<lparr>pushed := mapStore (Digest (blobDesc (blob layer))) False (pushed m),
       saved := False,
       layers := layers m @ [layer]\<rparr>"

text \<open>
  Modelled from the spec: \<open>NewLayerFromFile\<close> and \<open>WithLayerAnnotation\<close> are in
  \<open>oci/layer.go\<close>, which is not under \<open>src/\<close>. The specification says that the
  setters append "a freshly built layer with the annotation set to the well-known
  in-image destination path". Building the layer from the file (reading it, hashing
  it) is the function \<open>buildLayer\<close> of the media type, the source path and the
  destination; the option then stores the annotation in the descriptor of the
  layer's blob.
\<close>

definition WithLayerAnnotation :: "string \<Rightarrow> string \<Rightarrow> Layer \<Rightarrow> Layer" where
  "WithLayerAnnotation key val layer =
     layer\<lparr>blob := (blob layer)\<lparr>blobDesc := (blobDesc (blob layer))
        \<lparr>Annotations := mapStore key val (Annotations (blobDesc (blob layer)))\<rparr>\<rparr>\<rparr>"

definition NewLayerFromFile ::
  "(string \<Rightarrow> string \<Rightarrow> string \<Rightarrow> error + Layer) \<Rightarrow> string \<Rightarrow> string \<Rightarrow> string
     \<Rightarrow> (Layer \<Rightarrow> Layer) \<Rightarrow> error + Layer" where
  "NewLayerFromFile buildLayer mediaType src dest opt =
     (case buildLayer mediaType src dest of
        Inl err \<Rightarrow> Inl err
      | Inr layer \<Rightarrow> Inr (opt layer))"

text \<open>
  The loop shared by the three setters (lines 194-205, 234-245, 274-285): keep the
  layers without the annotation, and remove the temporary file of each dropped layer
  that has one. The result is the kept layers and the files removed.
\<close>

definition hasAnnotation :: "string \<Rightarrow> Layer \<Rightarrow> bool" where
  "hasAnnotation key layer \<longleftrightarrow> map_of (Annotations (blobDesc (blob layer))) key \<noteq> None"

definition dropAnnotated :: "string \<Rightarrow> Layer list \<Rightarrow> Layer list \<times> string list" where
  "dropAnnotated key ls =
     (filter (\<lambda>layer. \<not> hasAnnotation key layer) ls,
      map layerTmp (filter (\<lambda>layer. hasAnnotation key layer \<and> length (layerTmp layer) > 0) ls))"

text \<open>
  \<open>SetInitrd\<close>, \<open>SetKernel\<close>, \<open>SetKernelDbg\<close> (lines 185-302). Each returns the
  error, the manifest as it is left, and the files removed. The arguments of
  \<open>NewLayerFromFile\<close> are those of the source, line by line.
\<close>

definition SetInitrd ::
  "(string \<Rightarrow> string \<Rightarrow> string \<Rightarrow> error + Layer) \<Rightarrow> Manifest \<Rightarrow> string
     \<Rightarrow> error option \<times> Manifest \<times> string list" where
  "SetInitrd buildLayer m path =
     (let (kept, removed) = dropAnnotated AnnotationKernelInitrdPath (layers m);
          m1 = m\<lparr>layers := kept\<rparr>
      in case NewLayerFromFile buildLayer MediaTypeImageLayer path WellKnownInitrdPath
                (WithLayerAnnotation AnnotationKernelInitrdPath WellKnownInitrdPath) of
           Inl err \<Rightarrow> (Some (Error ''could build layer from file''), m1, removed)
         | Inr layer \<Rightarrow> (None, AddLayer m1 layer, removed))"

definition SetKernel ::
  "(string \<Rightarrow> string \<Rightarrow> string \<Rightarrow> error + Layer) \<Rightarrow> Manifest \<Rightarrow> string
     \<Rightarrow> error option \<times> Manifest \<times> string list" where
  "SetKernel buildLayer m path =
     (let (kept, removed) = dropAnnotated AnnotationKernelPath (layers m);
          m1 = m\<lparr>layers := kept\<rparr>
      in case NewLayerFromFile buildLayer MediaTypeImageLayer path WellKnownKernelPath
                (WithLayerAnnotation AnnotationKernelPath WellKnownKernelPath) of
           Inl err \<Rightarrow> (Some (Error ''could build layer from file''), m1, removed)
         | Inr layer \<Rightarrow> (None, AddLayer m1 layer, removed))"

definition SetKernelDbg ::
  "(string \<Rightarrow> string \<Rightarrow> string \<Rightarrow> error + Layer) \<Rightarrow> Manifest \<Rightarrow> string
     \<Rightarrow> error option \<times> Manifest \<times> string list" where
  "SetKernelDbg buildLayer m path =
     (let (kept, removed) = dropAnnotated AnnotationKernelDbgPath (layers m);
          m1 = m\<lparr>layers := kept\<rparr>
      in case NewLayerFromFile buildLayer MediaTypeImageLayer path WellKnownKernelPath
                (WithLayerAnnotation AnnotationKernelDbgPath WellKnownKernelDbgPath) of
           Inl err \<Rightarrow> (Some (Error ''could build layer from file''), m1, removed)
         | Inr layer \<Rightarrow> (None, AddLayer m1 layer, removed))"

text \<open>
  Go maps are references. \<open>Save\<close> stores \<open>manifest.annotations\<close> in the manifest it
  generates (line 460) and that map again in the descriptor (line 475), so from then
  on a write to \<open>manifest.annotations\<close> is seen through all three. The model keeps a
  copy in each place and \<open>writeAnnotation\<close> writes to every copy that exists.
\<close>

definition writeAnnotation :: "string \<Rightarrow> string \<Rightarrow> Manifest \<Rightarrow> Manifest" where
  "writeAnnotation key val m =
     m\<lparr>annotations := Some (mapStore key val (case annotations m of None \<Rightarrow> [] | Some a \<Rightarrow> a)),
       manifest := map_option
          (\<lambda>mf. mf\<lparr>ManifestAnnotations := mapStore key val (ManifestAnnotations mf)\<rparr>)
          (manifest m),
       desc := map_option (\<lambda>d. d\<lparr>Annotations := mapStore key val (Annotations d)\<rparr>) (desc m)\<rparr>"

text \<open>The remaining setters (lines 304-360).\<close>

definition SetLabel :: "Manifest \<Rightarrow> string \<Rightarrow> string \<Rightarrow> Manifest" where
  "SetLabel m key val =
     m\<lparr>saved := False,
       config := (config m)\<lparr>Config := (Config (config m))
          \<lparr>Labels := Some (mapStore key val
               (case Labels (Config (config m)) of None \<Rightarrow> [] | Some l \<Rightarrow> l))\<rparr>\<rparr>\<rparr>"

definition SetAnnotation :: "Manifest \<Rightarrow> string \<Rightarrow> string \<Rightarrow> Manifest" where
  "SetAnnotation m key val = writeAnnotation key val (m\<lparr>saved := False\<rparr>)"

definition SetArchitecture :: "Manifest \<Rightarrow> string \<Rightarrow> Manifest" where
  "SetArchitecture m architecture =
     m\<lparr>saved := False, config := (config m)\<lparr>Architecture := architecture\<rparr>\<rparr>"

definition SetOS :: "Manifest \<Rightarrow> string \<Rightarrow> Manifest" where
  "SetOS m os = m\<lparr>saved := False, config := (config m)\<lparr>OS := os\<rparr>\<rparr>"

definition SetOSVersion :: "Manifest \<Rightarrow> string \<Rightarrow> Manifest" where
  "SetOSVersion m osversion =
     m\<lparr>saved := False, config := (config m)\<lparr>OSVersion := osversion\<rparr>\<rparr>"

definition SetOSFeature :: "Manifest \<Rightarrow> string list \<Rightarrow> Manifest" where
  "SetOSFeature m feature =
     m\<lparr>saved := False,
       config := (config m)\<lparr>OSFeatures := OSFeatures (config m) @ feature\<rparr>\<rparr>"

definition SetCmd :: "Manifest \<Rightarrow> string list \<Rightarrow> Manifest" where
  "SetCmd m cmd = m\<lparr>config := (config m)\<lparr>Config := (Config (config m))\<lparr>Cmd := cmd\<rparr>\<rparr>\<rparr>"

definition SetEnv :: "Manifest \<Rightarrow> string list \<Rightarrow> Manifest" where
  "SetEnv m env = m\<lparr>config := (config m)\<lparr>Config := (Config (config m))\<lparr>Env := env\<rparr>\<rparr>\<rparr>"

subsection \<open>The comparator and the sort of \<open>OSFeatures\<close>\<close>

text \<open>
  \<open>strconv.Atoi\<close>: an optional sign, then one or more decimal digits, and a value
  in the range of a 64-bit \<open>int\<close>; anything else is an error.
\<close>

definition isDigit :: "char \<Rightarrow> bool" where
  "isDigit c \<longleftrightarrow> 48 \<le> (of_char c :: nat) \<and> (of_char c :: nat) \<le> 57"

definition digitsValue :: "string \<Rightarrow> int" where
  "digitsValue ds = foldl (\<lambda>n c. 10 * n + (int (of_char c) - 48)) 0 ds"

definition Atoi :: "string \<Rightarrow> int option" where
  "Atoi s =
     (let neg = (s \<noteq> [] \<and> hd s = CHR ''-'');
          ds = (if s \<noteq> [] \<and> (hd s = CHR ''-'' \<or> hd s = CHR ''+'') then tl s else s)
      in if ds = [] \<or> \<not> list_all isDigit ds then None
         else (let v = (if neg then - digitsValue ds else digitsValue ds)
               in if v < - (2 ^ 63) \<or> 2 ^ 63 - 1 < v then None else Some v))"

text \<open>Go compares strings byte by byte.\<close>

fun stringLess :: "string \<Rightarrow> string \<Rightarrow> bool" where
  "stringLess [] [] = False"
| "stringLess [] (y # ys) = True"
| "stringLess (x # xs) [] = False"
| "stringLess (x # xs) (y # ys) =
     ((of_char x :: nat) < of_char y \<or> (x = y \<and> stringLess xs ys))"

text \<open>
  The \<open>less\<close> function handed to \<open>sort.Slice\<close> (lines 400-411), on the elements at
  the indices \<open>i\<close> and \<open>j\<close>.
\<close>

definition featureLess :: "string \<Rightarrow> string \<Rightarrow> bool" where
  "featureLess fi fj =
     (case Atoi fi of
        Some z \<Rightarrow> (case Atoi fj of Some y \<Rightarrow> y < z | None \<Rightarrow> True)
      | None \<Rightarrow> stringLess fi fj)"

text \<open>
  \<open>sort.Slice\<close> belongs to the Go library. For a slice of at most twelve elements it
  runs the insertion sort below (\<open>insertionSortLessFunc\<close>: every element is swapped
  towards the front while \<open>less\<close> holds against its left neighbour); the model is
  meant for such slices. \<open>insertBack\<close> works on the sorted prefix in reverse.
\<close>

fun insertBack :: "('a \<Rightarrow> 'a \<Rightarrow> bool) \<Rightarrow> 'a \<Rightarrow> 'a list \<Rightarrow> 'a list" where
  "insertBack lt x [] = [x]"
| "insertBack lt x (y # ys) = (if lt x y then y # insertBack lt x ys else x # y # ys)"

definition sortSlice :: "('a \<Rightarrow> 'a \<Rightarrow> bool) \<Rightarrow> 'a list \<Rightarrow> 'a list" where
  "sortSlice lt xs = rev (foldl (\<lambda>sorted x. insertBack lt x sorted) [] xs)"

text \<open>
  \<open>slices.Compact\<close> returns the slice without repeated neighbours and, working in
  place, leaves the caller's slice at its old length: the compacted elements, then
  zero values.
\<close>

definition Compact :: "string list \<Rightarrow> string list" where
  "Compact xs = remdups_adj xs"

definition afterCompact :: "string list \<Rightarrow> string list" where
  "afterCompact xs = remdups_adj xs @ replicate (length xs - length (remdups_adj xs)) []"

subsection \<open>\<open>Save\<close>\<close>

record Reference =
  RefName :: string
  RefContext :: string
  RefString :: string

text \<open>
  What \<open>Save\<close> and \<open>AddBlob\<close> take from outside the manifest: the storage handler
  with its state \<open>'h\<close> (\<open>DigestInfo\<close> answers whether \<open>info\<close> is not \<open>nil\<close>, and the
  error), the reference parser, the JSON encoder, the blob and descriptor
  constructors, the clock, the version string and its annotation key,
  \<open>errors.Is(err, ErrAlreadyExists)\<close>, and opening and removing a file.
\<close>

record 'h SaveEnv =
  DigestInfo :: "'h \<Rightarrow> string \<Rightarrow> bool \<times> error option"
  SaveDescriptor :: "'h \<Rightarrow> string \<Rightarrow> Descriptor \<Rightarrow> string \<Rightarrow> error option \<times> 'h"
  ParseReference :: "string \<Rightarrow> error + Reference"
  MarshalImage :: "Image \<Rightarrow> error + string"
  MarshalManifest :: "OciManifest \<Rightarrow> error + string"
  NewBlob :: "string \<Rightarrow> string \<Rightarrow> Platform \<Rightarrow> error + Blob"
  NewDescriptorFromBytes :: "string \<Rightarrow> string \<Rightarrow> Descriptor"
  Now :: string
  Version :: string
  AnnotationKraftKitVersion :: string
  IsAlreadyExists :: "error \<Rightarrow> bool"
  OpenFile :: "string \<Rightarrow> error + string"
  RemoveFile :: "string \<Rightarrow> error option"

text \<open>\<open>AddBlob\<close> (lines 149-182).\<close>

definition AddBlob :: "'h SaveEnv \<Rightarrow> 'h \<Rightarrow> string \<Rightarrow> Blob \<Rightarrow> (error + Descriptor) \<times> 'h" where
  "AddBlob env h ref b =
     (case DigestInfo env h (Digest (blobDesc b)) of
        (True, None) \<Rightarrow> (Inr (blobDesc b), h)
      | _ \<Rightarrow>
          (case OpenFile env (blobTmp b) of
             Inl err \<Rightarrow> (Inl err, h)
           | Inr fp \<Rightarrow>
               (case SaveDescriptor env h ref (blobDesc b) fp of
                  (Some err, h') \<Rightarrow> (Inl err, h')
                | (None, h') \<Rightarrow>
                    if removeAfterSave b
                    then (case RemoveFile env (blobTmp b) of
                            Some err \<Rightarrow> (Inl err, h')
                          | None \<Rightarrow> (Inr (blobDesc b), h'))
                    else (Inr (blobDesc b), h'))))"

text \<open>
  Lines 382-411: the image config as it is handed to \<open>json.Marshal\<close>, with the
  layer digests in \<open>RootFS\<close> and with \<open>OSFeatures\<close> sorted in place.
\<close>

definition configToMarshal :: "Manifest \<Rightarrow> Image" where
  "configToMarshal m =
     (let diffIds = map (\<lambda>layer. Digest (blobDesc (blob layer))) (layers m);
          c = (if length diffIds > 0
               then (config m)\<lparr>RootFS := \<lparr>RootFSType = ''layers'', DiffIDs = diffIds\<rparr>\<rparr>
               else config m)
      in c\<lparr>OSFeatures := sortSlice featureLess (OSFeatures c)\<rparr>)"

text \<open>
  Lines 515-546: the layers are pushed by an error group. The model pushes them in
  the order of the slice and stops at the first error.
\<close>

fun pushLayers :: "'h SaveEnv \<Rightarrow> string \<Rightarrow> (string \<times> bool) list \<Rightarrow> Layer list \<Rightarrow> 'h
                     \<Rightarrow> error option \<times> 'h" where
  "pushLayers env ref pushedMap [] h = (None, h)"
| "pushLayers env ref pushedMap (layer # rest) h =
     (if blobTmp (blob layer) = [] then pushLayers env ref pushedMap rest h
      else if map_of pushedMap (Digest (blobDesc (blob layer))) = Some True
      then pushLayers env ref pushedMap rest h
      else if fst (DigestInfo env h (Digest (blobDesc (blob layer))))
      then pushLayers env ref pushedMap rest h
      else (case AddBlob env h ref (blob layer) of
              (Inl err, h') \<Rightarrow> (Some (Error ''failed to push layer''), h')
            | (Inr d, h') \<Rightarrow> pushLayers env ref pushedMap rest h'))"

text \<open>
  Lines 382-479 of \<open>Save\<close>: everything that is built in memory before the handler
  is written to. The result is the manifest as it is left and, unless a step failed,
  the config blob, the marshalled manifest and the descriptor \<open>*manifest.desc\<close>.
  \<open>manifest.manifest\<close> and \<open>manifest.desc\<close> are generated only when they are
  \<open>nil\<close> (lines 451 and 469). The platform keeps its own copy of the compacted
  features; in Go that slice shares the array of \<open>config.OSFeatures\<close>, so a later
  sort in place also reorders the features of a platform stored earlier. No digest
  depends on it.
\<close>

definition assembleManifest :: "'h SaveEnv \<Rightarrow> Manifest \<Rightarrow> Reference
      \<Rightarrow> (error + Blob \<times> string \<times> Descriptor) \<times> Manifest" where
  "assembleManifest env m ref =
     (let layerDescs = map (\<lambda>layer. blobDesc (blob layer)) (layers m);
          m1 = m\<lparr>config := configToMarshal m\<rparr>
      in case MarshalImage env (config m1) of
           Inl err \<Rightarrow> (Inl err, m1)
         | Inr configJson \<Rightarrow>
     (let platform = \<lparr>PlatformArchitecture = Architecture (config m1),
                      PlatformOS = OS (config m1),
                      PlatformOSVersion = OSVersion (config m1),
                      PlatformOSFeatures = Compact (OSFeatures (config m1))\<rparr>;
          m2 = m1\<lparr>config := (config m1)\<lparr>OSFeatures := afterCompact (OSFeatures (config m1))\<rparr>\<rparr>
      in case NewBlob env MediaTypeImageConfig configJson platform of
           Inl err \<Rightarrow> (Inl err, m2)
         | Inr configBlob \<Rightarrow>
     (let m3 = writeAnnotation AnnotationImageName (RefString ref)
                (writeAnnotation (AnnotationKraftKitVersion env) (Version env)
                  (writeAnnotation AnnotationCreated (Now env)
                    (writeAnnotation AnnotationRefName (RefContext ref) m2)));
          mf = (case manifest m3 of
                  Some mf \<Rightarrow> mf
                | None \<Rightarrow>
                    \<lparr>SchemaVersion = 2,
                     ManifestMediaType = MediaTypeImageManifest,
                     ManifestConfig = blobDesc configBlob,
                     ManifestLayers = layerDescs,
                     ManifestAnnotations =
                       (case annotations m3 of None \<Rightarrow> [] | Some a \<Rightarrow> a)\<rparr>);
          m4 = m3\<lparr>manifest := Some mf\<rparr>
      in case MarshalManifest env mf of
           Inl err \<Rightarrow> (Inl (Error ''failed to marshal manifest''), m4)
         | Inr manifestJson \<Rightarrow>
     (let d = (case desc m4 of
                 Some d \<Rightarrow> d
               | None \<Rightarrow>
                   (NewDescriptorFromBytes env MediaTypeImageManifest manifestJson)
                      \<lparr>Annotations := ManifestAnnotations mf,
                       DescPlatform := Some platform\<rparr>)
      in (Inr (configBlob, manifestJson, d), m4\<lparr>desc := Some d\<rparr>)))))"

text \<open>
  Lines 486-548 of \<open>Save\<close>: the manifest descriptor is saved (an
  \<open>ErrAlreadyExists\<close> is ignored), then the config blob unless the handler has it,
  then \<open>saved\<close> is set and the layers are pushed.
\<close>

definition storeManifest :: "'h SaveEnv \<Rightarrow> 'h \<Rightarrow> Manifest \<Rightarrow> Reference \<Rightarrow> Blob \<Rightarrow> string
      \<Rightarrow> Descriptor \<Rightarrow> (error + Descriptor) \<times> Manifest \<times> 'h" where
  "storeManifest env h m ref configBlob manifestJson d =
     (case SaveDescriptor env h (RefName ref) d manifestJson of
        (saveErr, h1) \<Rightarrow>
     (if (case saveErr of None \<Rightarrow> False | Some err \<Rightarrow> \<not> IsAlreadyExists env err)
      then (Inl (Error ''failed to save manifest''), m, h1)
      else
     (case (if fst (DigestInfo env h1 (Digest (blobDesc configBlob)))
            then (Inr (blobDesc configBlob), h1)
            else AddBlob env h1 (RefName ref) configBlob) of
        (Inl err, h2) \<Rightarrow> (Inl err, m, h2)
      | (Inr cd, h2) \<Rightarrow>
     (let m6 = m\<lparr>saved := True\<rparr>
      in case pushLayers env (RefName ref) (pushed m6) (layers m6) h2 of
           (Some err, h3) \<Rightarrow> (Inl err, m6, h3)
         | (None, h3) \<Rightarrow> (Inr d, m6, h3)))))"

text \<open>
  \<open>Save\<close> (lines 363-549). The result is what \<open>Save\<close> returns, the manifest as it
  is left and the handler's state. The two early returns of lines 364-372 come
  first.
\<close>

definition Save :: "'h SaveEnv \<Rightarrow> 'h \<Rightarrow> Manifest \<Rightarrow> string
                      \<Rightarrow> (error + Descriptor) \<times> Manifest \<times> 'h" where
  "Save env h m fullref =
     (case (if saved m then desc m else None) of
        Some d \<Rightarrow> (Inr d, m, h)
      | None \<Rightarrow>
     (case (case desc m of
              None \<Rightarrow> None
            | Some d \<Rightarrow> if fst (DigestInfo env h (Digest d)) then Some d else None) of
        Some d \<Rightarrow> (Inr d, m, h)
      | None \<Rightarrow>
     (case ParseReference env fullref of
        Inl err \<Rightarrow> (Inl err, m, h)
      | Inr ref \<Rightarrow>
     (case assembleManifest env m ref of
        (Inl err, m') \<Rightarrow> (Inl err, m', h)
      | (Inr (configBlob, manifestJson, d), m') \<Rightarrow>
          storeManifest env h m' ref configBlob manifestJson d))))"

subsection \<open>A concrete handler and concrete layers\<close>

text \<open>
  For evaluating \<open>Save\<close>: a handler that keeps the digests it was given, an
  encoder that prints the fields one after the other, and a digest that is the
  content itself, so that two contents never share a digest.
\<close>

definition renderMap :: "(string \<times> string) list \<Rightarrow> string" where
  "renderMap kvs = concat (map (\<lambda>(k, v). k @ ''='' @ v @ '';'') kvs)"

definition renderList :: "string list \<Rightarrow> string" where
  "renderList xs = concat (map (\<lambda>x. x @ '','') xs)"

definition save_env_example :: "string list SaveEnv" where
  "save_env_example =
     \<lparr>DigestInfo = (\<lambda>h d. (d \<in> set h, None)),
      SaveDescriptor = (\<lambda>h ref d bytes. (None, Digest d # h)),
      ParseReference = (\<lambda>s. Inr \<lparr>RefName = s, RefContext = takeWhile (\<lambda>c. c \<noteq> CHR '':'') s,
                                  RefString = s\<rparr>),
      MarshalImage = (\<lambda>img. Inr (''{arch:'' @ Architecture img @ '' os:'' @ OS img
                        @ '' features:'' @ renderList (OSFeatures img)
                        @ '' labels:'' @ renderMap (case Labels (Config img) of None \<Rightarrow> [] | Some l \<Rightarrow> l)
                        @ '' diff_ids:'' @ renderList (DiffIDs (RootFS img)) @ ''}'')),
      MarshalManifest = (\<lambda>mf. Inr (''{config:'' @ Digest (ManifestConfig mf)
                        @ '' layers:'' @ renderList (map Digest (ManifestLayers mf))
                        @ '' annotations:'' @ renderMap (ManifestAnnotations mf) @ ''}'')),
      NewBlob = (\<lambda>mediaType bytes platform.
                   Inr \<lparr>blobDesc = \<lparr>MediaType = mediaType, Digest = ''sha256:'' @ bytes,
                                    Size = int (length bytes), Annotations = [],
                                    DescPlatform = Some platform\<rparr>,
                        blobTmp = ''/tmp/config.json'', blobSrc = [], removeAfterSave = False\<rparr>),
      NewDescriptorFromBytes = (\<lambda>mediaType bytes.
                   \<lparr>MediaType = mediaType, Digest = ''sha256:'' @ bytes,
                    Size = int (length bytes), Annotations = [], DescPlatform = None\<rparr>),
      Now = ''2024-01-01T00:00:00Z'',
      Version = ''v0'',
      AnnotationKraftKitVersion = ''kraftkit.version'',
      IsAlreadyExists = (\<lambda>err. err = Error ''already exists''),
      OpenFile = (\<lambda>path. Inr path),
      RemoveFile = (\<lambda>path. None)\<rparr>"

definition layer_example :: Layer where
  "layer_example =
     \<lparr>blob = \<lparr>blobDesc = \<lparr>MediaType = MediaTypeImageLayer, Digest = ''sha256:rootfs'',
                           Size = 6, Annotations = [], DescPlatform = None\<rparr>,
               blobTmp = ''/tmp/rootfs.tar'', blobSrc = ''rootfs'', removeAfterSave = False\<rparr>,
      dst = ''/'', layerTmp = []\<rparr>"

definition manifest_example :: Manifest where
  "manifest_example = AddLayer NewManifest layer_example"


text \<open>
  For evaluating the setters: a layer builder that succeeds and records the
  destination it was given in the layer.
\<close>

definition build_layer_example :: "string \<Rightarrow> string \<Rightarrow> string \<Rightarrow> error + Layer" where
  "build_layer_example mediaType src dest =
     Inr \<lparr>blob = \<lparr>blobDesc = \<lparr>MediaType = mediaType, Digest = ''sha256:'' @ src, Size = 0,
                                Annotations = [], DescPlatform = None\<rparr>,
                   blobTmp = ''/tmp/'' @ src, blobSrc = src, removeAfterSave = False\<rparr>,
          dst = dest, layerTmp = ''/tmp/'' @ src\<rparr>"

section \<open>IP allocator: \<open>Project.AssignIPs\<close>\<close>

subsection \<open>The functions of package \<open>net\<close> that \<open>AssignIPs\<close> calls\<close>

text \<open>
  A \<open>net.IP\<close> is a byte slice. The model covers the IPv4 text forms: a dotted quad
  of decimal fields without leading zeros, and for a CIDR a prefix length from 0 to
  32 after the slash. (Package \<open>net\<close> also reads IPv6 texts; for those the model
  reports a parse error.)
\<close>

type_synonym byte = "8 word"

definition digitChar :: "nat \<Rightarrow> char" where
  "digitChar n = char_of (48 + n)"

definition showByte :: "byte \<Rightarrow> string" where
  "showByte b =
     (let n = unat b in
      if n < 10 then [digitChar n]
      else if n < 100 then [digitChar (n div 10), digitChar (n mod 10)]
      else [digitChar (n div 100), digitChar (n div 10 mod 10), digitChar (n mod 10)])"

text \<open>\<open>IP.String\<close> for a four-byte address; \<open><nil>\<close> for an empty slice.\<close>

definition IPString :: "byte list \<Rightarrow> string" where
  "IPString ip =
     (case ip of
        [a, b, c, d] \<Rightarrow> showByte a @ ''.'' @ showByte b @ ''.'' @ showByte c @ ''.'' @ showByte d
      | [] \<Rightarrow> ''<nil>''
      | _ \<Rightarrow> ''?'' @ concat (map showByte ip))"

text \<open>\<open>strings.Split\<close> on a one-character separator.\<close>

fun splitOn :: "char \<Rightarrow> string \<Rightarrow> string list" where
  "splitOn sep [] = [[]]"
| "splitOn sep (c # cs) =
     (if c = sep then [] # splitOn sep cs
      else (case splitOn sep cs of
              [] \<Rightarrow> [[c]]
            | part # parts \<Rightarrow> (c # part) # parts))"

definition decimalValue :: "string \<Rightarrow> nat" where
  "decimalValue ds = foldl (\<lambda>n c. 10 * n + (of_char c - 48)) 0 ds"

definition allDigits :: "string \<Rightarrow> bool" where
  "allDigits ds \<longleftrightarrow> list_all (\<lambda>c. 48 \<le> (of_char c :: nat) \<and> (of_char c :: nat) \<le> 57) ds"

definition parseOctet :: "string \<Rightarrow> byte option" where
  "parseOctet part =
     (if part \<noteq> [] \<and> allDigits part \<and> length part \<le> 3
         \<and> (length part = 1 \<or> hd part \<noteq> CHR ''0'') \<and> decimalValue part \<le> 255
      then Some (of_nat (decimalValue part))
      else None)"

text \<open>\<open>net.ParseIP\<close>, IPv4 form; \<open>None\<close> is the \<open>nil\<close> result.\<close>

definition ParseIP :: "string \<Rightarrow> byte list option" where
  "ParseIP s =
     (case map parseOctet (splitOn CHR ''.'' s) of
        [Some a, Some b, Some c, Some d] \<Rightarrow> Some [a, b, c, d]
      | _ \<Rightarrow> None)"

record IPNet =
  NetIP :: "byte list"
  NetMask :: "byte list"

text \<open>\<open>net.CIDRMask(ones, 32)\<close>: \<open>ones\<close> leading one bits.\<close>

definition maskByte :: "nat \<Rightarrow> byte" where
  "maskByte k = (if k \<ge> 8 then 255 else of_nat (256 - 2 ^ (8 - k)))"

definition CIDRMask :: "nat \<Rightarrow> byte list" where
  "CIDRMask ones = [maskByte ones, maskByte (ones - 8), maskByte (ones - 16), maskByte (ones - 24)]"

text \<open>
  \<open>net.ParseCIDR\<close>: the address as written, and the network with the address
  masked; \<open>None\<close> stands for the error.
\<close>

definition ParseCIDR :: "string \<Rightarrow> (byte list \<times> IPNet) option" where
  "ParseCIDR s =
     (case splitOn CHR ''/'' s of
        addr # rest \<Rightarrow>
          (if rest = [] then None
           else (let mask = tl (dropWhile (\<lambda>c. c \<noteq> CHR ''/'') s) in
                 case ParseIP addr of
                   None \<Rightarrow> None
                 | Some ip \<Rightarrow>
                     if mask \<noteq> [] \<and> allDigits mask \<and> decimalValue mask \<le> 32
                     then (let m = CIDRMask (decimalValue mask)
                           in Some (ip, \<lparr>NetIP = map2 (AND) ip m, NetMask = m\<rparr>))
                     else None))
      | [] \<Rightarrow> None)"

text \<open>\<open>IPNet.Contains\<close> for four-byte addresses.\<close>

definition ContainsIP :: "IPNet \<Rightarrow> byte list \<Rightarrow> bool" where
  "ContainsIP n ip \<longleftrightarrow>
     length ip = length (NetIP n)
     \<and> map2 (AND) (NetIP n) (NetMask n) = map2 (AND) ip (NetMask n)"

subsection \<open>\<open>iputils.IncreaseIP\<close> and the slice it shares\<close>

text \<open>
  Modelled from the spec: \<open>iputils.IncreaseIP\<close> is in
  \<open>machine/network/iputils\<close>, which is not under \<open>src/\<close>. Section 4.A of the
  specification describes the scan as going "upward from the subnet base IP via
  increment-in-place of the 4-byte IPv4 representation (overflow on a byte carries
  into the next)": the function adds one to the last byte of the slice it is given,
  carries into the byte before it when a byte wraps to zero, and returns that slice.
\<close>

fun incrementReversed :: "byte list \<Rightarrow> byte list" where
  "incrementReversed [] = []"
| "incrementReversed (b # bs) =
     (if b + 1 = 0 then 0 # incrementReversed bs else (b + 1) # bs)"

definition incrementBytes :: "byte list \<Rightarrow> byte list" where
  "incrementBytes bs = rev (incrementReversed (rev bs))"

text \<open>
  A slice value is a reference to its backing array. The store maps a reference to
  the bytes of the array; \<open>IncreaseIP\<close> writes to the array of its argument and
  returns the same reference.
\<close>

type_synonym sliceRef = nat
type_synonym byteStore = "sliceRef \<Rightarrow> byte list"

definition IncreaseIP :: "byteStore \<Rightarrow> sliceRef \<Rightarrow> byteStore \<times> sliceRef" where
  "IncreaseIP store ip = (store(ip := incrementBytes (store ip)), ip)"

text \<open>
  An \<open>*IPNet\<close> whose \<open>IP\<close> field is a slice in the store, and \<open>Contains\<close> and
  \<open>String\<close> reading through the store.
\<close>

record IPNetRef =
  NetIPRef :: sliceRef
  NetMaskBytes :: "byte list"

definition ContainsRef :: "byteStore \<Rightarrow> IPNetRef \<Rightarrow> sliceRef \<Rightarrow> bool" where
  "ContainsRef store subnet ip \<longleftrightarrow>
     ContainsIP \<lparr>NetIP = store (NetIPRef subnet), NetMask = NetMaskBytes subnet\<rparr> (store ip)"

subsection \<open>\<open>AssignIPs\<close> (lines 131-267)\<close>

text \<open>
  \<open>usedAddresses\<close> is a \<open>map[string]map[string]struct{}\<close>: for a network key the
  set of reserved address strings, or nothing when no inner map was made for the key.
  Reading from a missing inner map finds nothing; writing to it panics.
\<close>

type_synonym usedMap = "string \<rightharpoonup> string list"

definition usedExists :: "usedMap \<Rightarrow> string \<Rightarrow> string \<Rightarrow> bool" where
  "usedExists used name addr \<longleftrightarrow> (case used name of None \<Rightarrow> False | Some s \<Rightarrow> addr \<in> set s)"

definition usedInsert :: "usedMap \<Rightarrow> string \<Rightarrow> string \<Rightarrow> error + usedMap" where
  "usedInsert used name addr =
     (case used name of
        None \<Rightarrow> Inl (Panic ''assignment to entry in nil map'')
      | Some s \<Rightarrow> Inr (used(name \<mapsto> (if addr \<in> set s then s else s @ [addr]))))"

text \<open>Lines 140-148: the IPAM configs of a network joined into the first one.\<close>

fun joinIpam :: "IPAMPool \<Rightarrow> IPAMPool list \<Rightarrow> IPAMPool" where
  "joinIpam ipamConfig [] = ipamConfig"
| "joinIpam ipamConfig (c # cs) =
     joinIpam
       (ipamConfig\<lparr>Subnet := (if Subnet c \<noteq> [] then Subnet c else Subnet ipamConfig),
                   Gateway := (if Gateway c \<noteq> [] then Gateway c else Gateway ipamConfig)\<rparr>)
       cs"

text \<open>
  The first loop (lines 134-189), over the networks in the order of the run. It
  returns the networks with their joined config and default gateway, and
  \<open>usedAddresses\<close> with the gateway and the network address of every network that
  is neither external nor without IPAM config.
\<close>

fun reserveNetworks :: "(string \<times> NetworkConfig) list \<Rightarrow> (string \<times> NetworkConfig) list
                           \<Rightarrow> usedMap \<Rightarrow> error + (string \<times> NetworkConfig) list \<times> usedMap" where
  "reserveNetworks [] done used = Inr (done, used)"
| "reserveNetworks ((i, network) # rest) done used =
     (if External network \<or> length (IpamConfig network) = 0
      then reserveNetworks rest (done @ [(i, network)]) used
      else
        (let ipamConfig = joinIpam (hd (IpamConfig network)) (tl (IpamConfig network)) in
         if Subnet ipamConfig = []
         then Inl (Error (''network '' @ NetworkName network @ '' has no subnet specified''))
         else if length (splitOn CHR ''/'' (Subnet ipamConfig)) \<noteq> 2
         then Inl (Error (''network '' @ NetworkName network @ '' has an invalid subnet specified''))
         else
           (case ParseCIDR (Subnet ipamConfig) of
              None \<Rightarrow> Inl (Error (''failed to parse '' @ NetworkName network @ '' network subnet''))
            | Some (subnetIP, subnetMask) \<Rightarrow>
                (case (if Gateway ipamConfig = []
                       then Inr (ipamConfig\<lparr>Gateway := IPString subnetIP\<rparr>)
                       else (case ParseIP (Gateway ipamConfig) of
                               None \<Rightarrow> Inl (Error (''failed to parse '' @ NetworkName network
                                                     @ '' network gateway''))
                             | Some gatewayIP \<Rightarrow>
                                 if \<not> ContainsIP subnetMask gatewayIP
                                 then Inl (Error (''network '' @ NetworkName network
                                                  @ '' gateway is not within the subnet''))
                                 else Inr ipamConfig)) of
                   Inl err \<Rightarrow> Inl err
                 | Inr ipamConfig' \<Rightarrow>
                     reserveNetworks rest
                       (done @ [(i, network\<lparr>IpamConfig := ipamConfig' # tl (IpamConfig network)\<rparr>)])
                       (used(i \<mapsto> remdups [Gateway ipamConfig', IPString (NetIP subnetMask)]))))))"

text \<open>
  The second loop (lines 192-210): the static addresses of the services are marked
  as used. A lookup of a missing network gives the zero \<open>NetworkConfig\<close>.
\<close>

definition networkIpam :: "(string \<times> NetworkConfig) list \<Rightarrow> string \<Rightarrow> IPAMPool list" where
  "networkIpam networks name = (case map_of networks name of None \<Rightarrow> [] | Some n \<Rightarrow> IpamConfig n)"

fun markStatic :: "(string \<times> NetworkConfig) list \<Rightarrow> string
                     \<Rightarrow> (string \<times> ServiceNetworkConfig option) list \<Rightarrow> usedMap
                     \<Rightarrow> error + usedMap" where
  "markStatic networks serviceName [] used = Inr used"
| "markStatic networks serviceName ((name, network) # rest) used =
     (if map_of networks name = None
      then Inl (Error (''service '' @ serviceName @ '' references non-existent network '' @ name))
      else (case network of
              None \<Rightarrow> markStatic networks serviceName rest used
            | Some n \<Rightarrow>
                if Ipv4Address n = [] then markStatic networks serviceName rest used
                else if length (networkIpam networks name) = 0
                then Inl (Error (''cannot assign IP address to service '' @ serviceName
                                 @ '' on network '' @ name @ '' without IPAM config''))
                else (case usedInsert used name (Ipv4Address n) of
                        Inl err \<Rightarrow> Inl err
                      | Inr used' \<Rightarrow> markStatic networks serviceName rest used')))"

fun markStaticServices :: "(string \<times> NetworkConfig) list \<Rightarrow> (string \<times> ServiceConfig) list
                             \<Rightarrow> usedMap \<Rightarrow> error + usedMap" where
  "markStaticServices networks [] used = Inr used"
| "markStaticServices networks ((key, service) # rest) used =
     (case Networks service of
        None \<Rightarrow> markStaticServices networks rest used
      | Some nets \<Rightarrow>
          (case markStatic networks (Name service) nets used of
             Inl err \<Rightarrow> Inl err
           | Inr used' \<Rightarrow> markStaticServices networks rest used'))"

text \<open>
  The scan of lines 241-246. \<open>ip := subnet.IP\<close> copies the slice value, so \<open>ip\<close>
  is the reference of \<open>subnet.IP\<close>. The loop need not end when every address is
  reserved, hence the result is optional.
\<close>

partial_function (option) scanFree ::
  "usedMap \<Rightarrow> string \<Rightarrow> IPNetRef \<Rightarrow> byteStore \<Rightarrow> sliceRef \<Rightarrow> (byteStore \<times> sliceRef) option" where
  "scanFree used name subnet store ip =
     (if ContainsRef store subnet ip \<and> usedExists used name (IPString (store ip))
      then (case IncreaseIP store ip of (store', ip') \<Rightarrow> scanFree used name subnet store' ip')
      else Some (store, ip))"

declare scanFree.simps [code]

text \<open>
  The body of the loop over \<open>service.Networks\<close> in the transform (lines 219-258)
  for one attachment. \<open>ParseCIDR\<close> allocates the array of \<open>subnet.IP\<close>; in the
  model this is reference \<open>0\<close> of a store of its own. The result is the attachment
  as it is left and the new \<open>usedAddresses\<close>; \<open>None\<close> when the scan does not end.
\<close>

definition assignOne :: "(string \<times> NetworkConfig) list \<Rightarrow> string
    \<Rightarrow> ServiceNetworkConfig option \<Rightarrow> usedMap
    \<Rightarrow> (error + ServiceNetworkConfig option \<times> usedMap) option" where
  "assignOne networks name network0 used =
     (let network = (case network0 of None \<Rightarrow> \<lparr>Ipv4Address = []\<rparr> | Some n \<Rightarrow> n) in
      if Ipv4Address network \<noteq> [] \<or> length (networkIpam networks name) = 0
      then Some (Inr (Some network, used))
      else (case ParseCIDR (Subnet (hd (networkIpam networks name))) of
              None \<Rightarrow> Some (Inl (Error ''invalid CIDR address''))
            | Some (addr, parsed) \<Rightarrow>
                (let store = (\<lambda>r. []) (0 := NetIP parsed);
                     subnet = \<lparr>NetIPRef = 0, NetMaskBytes = NetMask parsed\<rparr>;
                     ip = NetIPRef subnet
                 in case scanFree used name subnet store ip of
                      None \<Rightarrow> None
                    | Some (store', ip') \<Rightarrow>
                        if \<not> ContainsRef store' subnet ip'
                        then Some (Inl (Error (''not enough free IP addresses in network '' @ name)))
                        else (case usedInsert used name (IPString (store' ip')) of
                                Inl err \<Rightarrow> Some (Inl err)
                              | Inr used' \<Rightarrow>
                                  Some (Inr (Some (network\<lparr>Ipv4Address := IPString (store' ip')\<rparr>),
                                             used'))))))"

fun assignNetworks :: "(string \<times> NetworkConfig) list
    \<Rightarrow> (string \<times> ServiceNetworkConfig option) list
    \<Rightarrow> (string \<times> ServiceNetworkConfig option) list \<Rightarrow> usedMap
    \<Rightarrow> (error + (string \<times> ServiceNetworkConfig option) list \<times> usedMap) option" where
  "assignNetworks networks [] done used = Some (Inr (done, used))"
| "assignNetworks networks ((name, network) # rest) done used =
     (case assignOne networks name network used of
        None \<Rightarrow> None
      | Some (Inl err) \<Rightarrow> Some (Inl err)
      | Some (Inr (network', used')) \<Rightarrow>
          assignNetworks networks rest (done @ [(name, network')]) used')"

text \<open>
  The transform of lines 215-261. \<open>WithServicesTransform\<close> runs the function for
  every service on a task of its own; each attachment is handled under the mutex,
  and the model takes the services one after the other, in the order of the list.
\<close>

fun assignServices :: "(string \<times> NetworkConfig) list \<Rightarrow> (string \<times> ServiceConfig) list
    \<Rightarrow> (string \<times> ServiceConfig) list \<Rightarrow> usedMap
    \<Rightarrow> (error + (string \<times> ServiceConfig) list) option" where
  "assignServices networks [] done used = Some (Inr done)"
| "assignServices networks ((key, service) # rest) done used =
     (case Networks service of
        None \<Rightarrow> assignServices networks rest (done @ [(key, service)]) used
      | Some nets \<Rightarrow>
          (case assignNetworks networks nets [] used of
             None \<Rightarrow> None
           | Some (Inl err) \<Rightarrow> Some (Inl err)
           | Some (Inr (nets', used')) \<Rightarrow>
               assignServices networks rest
                 (done @ [(key, service\<lparr>Networks := Some nets'\<rparr>)]) used'))"

text \<open>
  \<open>AssignIPs\<close>: \<open>None\<close> when it does not return, otherwise the error or panic, or
  the project with the addresses filled in.
\<close>

definition AssignIPs :: "Project \<Rightarrow> (error + Project) option" where
  "AssignIPs project =
     (case reserveNetworks (ProjectNetworks project) [] Map.empty of
        Inl err \<Rightarrow> Some (Inl err)
      | Inr (networks, used) \<Rightarrow>
          (case markStaticServices networks (Services project) used of
             Inl err \<Rightarrow> Some (Inl err)
           | Inr used' \<Rightarrow>
               (case assignServices networks (Services project) [] used' of
                  None \<Rightarrow> None
                | Some (Inl err) \<Rightarrow> Some (Inl err)
                | Some (Inr services) \<Rightarrow>
                    Some (Inr (project\<lparr>ProjectNetworks := networks, Services := services\<rparr>)))))"

subsection \<open>Concrete projects\<close>

text \<open>
  Two services on a network with the subnet \<open>10.0.0.0/31\<close> and no gateway; and a
  service on an external network that has an IPAM config, once with a static address
  and once without.
\<close>

definition service_plain :: "string \<Rightarrow> string \<Rightarrow> ServiceNetworkConfig option \<Rightarrow> ServiceConfig" where
  "service_plain name net attachment =
     \<lparr>Name = name, ContainerName = ''demo-'' @ name, Image = ''nginx:latest'', Build = None,
      DependsOn = [], Networks = Some [(net, attachment)]\<rparr>"

definition project_slash31 :: Project where
  "project_slash31 =
     \<lparr>Services = [(''a'', service_plain ''a'' ''net'' None),
                  (''b'', service_plain ''b'' ''net'' None)],
      ProjectNetworks = [(''net'', \<lparr>NetworkName = ''demo_net'', External = False,
                          IpamConfig = [\<lparr>Subnet = ''10.0.0.0/31'', Gateway = []\<rparr>]\<rparr>)]\<rparr>"

definition project_external_static :: Project where
  "project_external_static =
     \<lparr>Services = [(''a'', service_plain ''a'' ''ext'' (Some \<lparr>Ipv4Address = ''10.0.0.5''\<rparr>))],
      ProjectNetworks = [(''ext'', \<lparr>NetworkName = ''shared'', External = True,
                          IpamConfig = [\<lparr>Subnet = ''10.0.0.0/24'', Gateway = []\<rparr>]\<rparr>)]\<rparr>"

definition project_external_dynamic :: Project where
  "project_external_dynamic =
     \<lparr>Services = [(''a'', service_plain ''a'' ''ext'' None)],
      ProjectNetworks = [(''ext'', \<lparr>NetworkName = ''shared'', External = True,
                          IpamConfig = [\<lparr>Subnet = ''10.0.0.0/24'', Gateway = []\<rparr>]\<rparr>)]\<rparr>"

section \<open>Dependency graph: \<open>ServicesOrderedByDependencies\<close> and its reverse\<close>

text \<open>
  The two variables that the closures of lines 272-349 share: the set \<open>added\<close> and
  the slice of services built so far.
\<close>

record OrderState =
  added :: "string list"
  orderedServices :: "ServiceConfig list"

text \<open>
  \<open>addDependenciesRecursevly\<close> (lines 278-298) with the loop over
  \<open>service.DependsOn\<close>. The closure calls itself without a bound, so the model
  carries the depth that the call stack has left: \<open>None\<close> is a recursion that
  does not come back within it. \<open>services\<close> is the argument of
  \<open>ServicesOrderedByDependencies\<close>, the lookup of line 293 goes to the project.
\<close>

fun addDependenciesRecursevly ::
    "nat \<Rightarrow> Project \<Rightarrow> (string \<times> ServiceConfig) list \<Rightarrow> bool \<Rightarrow> ServiceConfig
       \<Rightarrow> OrderState \<Rightarrow> OrderState option"
  and dependsOnLoop ::
    "nat \<Rightarrow> Project \<Rightarrow> (string \<times> ServiceConfig) list \<Rightarrow> bool
       \<Rightarrow> (string \<times> ServiceDependency) list \<Rightarrow> OrderState \<Rightarrow> OrderState option" where
  "addDependenciesRecursevly 0 project services expand service st = None"
| "addDependenciesRecursevly (Suc depth) project services expand service st =
     (case dependsOnLoop depth project services expand (DependsOn service)
             (st\<lparr>added := Name service # added st\<rparr>) of
        None \<Rightarrow> None
      | Some st' \<Rightarrow> Some (st'\<lparr>orderedServices := orderedServices st' @ [service]\<rparr>))"
| "dependsOnLoop depth project services expand [] st = Some st"
| "dependsOnLoop depth project services expand ((name, dependency) # rest) st =
     (if map_of services name = None \<and> \<not> expand
      then dependsOnLoop depth project services expand rest st
      else if name \<notin> set (added st) \<and> Required dependency
      then (case addDependenciesRecursevly depth project services expand
                   (lookupService (Services project) name) st of
              None \<Rightarrow> None
            | Some st' \<Rightarrow> dependsOnLoop depth project services expand rest st')
      else dependsOnLoop depth project services expand rest st)"

text \<open>The loop of lines 300-305 over the services handed in.\<close>

fun orderedLoop ::
    "nat \<Rightarrow> Project \<Rightarrow> (string \<times> ServiceConfig) list \<Rightarrow> bool
       \<Rightarrow> (string \<times> ServiceConfig) list \<Rightarrow> OrderState \<Rightarrow> OrderState option" where
  "orderedLoop depth project services expand [] st = Some st"
| "orderedLoop depth project services expand ((key, service) # rest) st =
     (if Name service \<in> set (added st)
      then orderedLoop depth project services expand rest st
      else (case addDependenciesRecursevly depth project services expand service st of
              None \<Rightarrow> None
            | Some st' \<Rightarrow> orderedLoop depth project services expand rest st'))"

definition ServicesOrderedByDependencies ::
    "nat \<Rightarrow> Project \<Rightarrow> (string \<times> ServiceConfig) list \<Rightarrow> bool \<Rightarrow> ServiceConfig list option" where
  "ServicesOrderedByDependencies depth project services expand =
     map_option orderedServices
       (orderedLoop depth project services expand services \<lparr>added = [], orderedServices = []\<rparr>)"

text \<open>
  \<open>ServiceConfig.GetDependents\<close> of compose-go: the names of the services of the
  project that have this service's name among the keys of their \<open>DependsOn\<close>.
\<close>

definition GetDependents :: "ServiceConfig \<Rightarrow> Project \<Rightarrow> string list" where
  "GetDependents service project =
     concat (map (\<lambda>(key, other).
                    map (\<lambda>(name, dependency). Name other)
                      (filter (\<lambda>(name, dependency). name = Name service) (DependsOn other)))
                 (Services project))"

text \<open>
  The lookup \<open>project.Services[name].DependsOn[service.Name].Required\<close> of line 333;
  a missing key gives the zero value, which is not required.
\<close>

definition dependsOnRequired :: "Project \<Rightarrow> string \<Rightarrow> string \<Rightarrow> bool" where
  "dependsOnRequired project name on =
     (case map_of (DependsOn (lookupService (Services project) name)) on of
        None \<Rightarrow> False
      | Some dependency \<Rightarrow> Required dependency)"

text \<open>\<open>addDependantsRecursevly\<close> (lines 319-339) with its loop over the dependents.\<close>

fun addDependantsRecursevly ::
    "nat \<Rightarrow> Project \<Rightarrow> (string \<times> ServiceConfig) list \<Rightarrow> bool \<Rightarrow> ServiceConfig
       \<Rightarrow> OrderState \<Rightarrow> OrderState option"
  and dependantsLoop ::
    "nat \<Rightarrow> Project \<Rightarrow> (string \<times> ServiceConfig) list \<Rightarrow> bool \<Rightarrow> ServiceConfig
       \<Rightarrow> string list \<Rightarrow> OrderState \<Rightarrow> OrderState option" where
  "addDependantsRecursevly 0 project services expand service st = None"
| "addDependantsRecursevly (Suc depth) project services expand service st =
     (case dependantsLoop depth project services expand service (GetDependents service project)
             (st\<lparr>added := Name service # added st\<rparr>) of
        None \<Rightarrow> None
      | Some st' \<Rightarrow> Some (st'\<lparr>orderedServices := orderedServices st' @ [service]\<rparr>))"
| "dependantsLoop depth project services expand service [] st = Some st"
| "dependantsLoop depth project services expand service (name # rest) st =
     (if map_of services name = None \<and> \<not> expand
      then dependantsLoop depth project services expand service rest st
      else if name \<notin> set (added st) \<and> dependsOnRequired project name (Name service)
      then (case addDependantsRecursevly depth project services expand
                   (lookupService (Services project) name) st of
              None \<Rightarrow> None
            | Some st' \<Rightarrow> dependantsLoop depth project services expand service rest st')
      else dependantsLoop depth project services expand service rest st)"

fun reversedLoop ::
    "nat \<Rightarrow> Project \<Rightarrow> (string \<times> ServiceConfig) list \<Rightarrow> bool
       \<Rightarrow> (string \<times> ServiceConfig) list \<Rightarrow> OrderState \<Rightarrow> OrderState option" where
  "reversedLoop depth project services expand [] st = Some st"
| "reversedLoop depth project services expand ((key, service) # rest) st =
     (if Name service \<in> set (added st)
      then reversedLoop depth project services expand rest st
      else (case addDependantsRecursevly depth project services expand service st of
              None \<Rightarrow> None
            | Some st' \<Rightarrow> reversedLoop depth project services expand rest st'))"

definition ServicesReversedByDependencies ::
    "nat \<Rightarrow> Project \<Rightarrow> (string \<times> ServiceConfig) list \<Rightarrow> bool \<Rightarrow> ServiceConfig list option" where
  "ServicesReversedByDependencies depth project services expand =
     map_option orderedServices
       (reversedLoop depth project services expand services \<lparr>added = [], orderedServices = []\<rparr>)"

subsection \<open>Concrete projects\<close>

text \<open>
  \<open>web\<close> depends on \<open>db\<close>; and a project in which \<open>a\<close> and \<open>b\<close> depend on each
  other. All dependencies are required.
\<close>

definition service_depending :: "string \<Rightarrow> string list \<Rightarrow> ServiceConfig" where
  "service_depending name deps =
     \<lparr>Name = name, ContainerName = ''demo-'' @ name, Image = name @ '':latest'', Build = None,
      DependsOn = map (\<lambda>d. (d, \<lparr>Required = True\<rparr>)) deps, Networks = None\<rparr>"

definition project_web_db :: Project where
  "project_web_db =
     \<lparr>Services = [(''web'', service_depending ''web'' [''db'']),
                  (''db'', service_depending ''db'' [])],
      ProjectNetworks = []\<rparr>"

definition project_cycle :: Project where
  "project_cycle =
     \<lparr>Services = [(''a'', service_depending ''a'' [''b'']),
                  (''b'', service_depending ''b'' [''a''])],
      ProjectNetworks = []\<rparr>"

section \<open>CPIO packer: the two passes of \<open>dockerfile.Build\<close> over the tar stream\<close>

text \<open>
  The type flags of \<open>archive/tar\<close> that \<open>Build\<close> tells apart; every other flag is
  \<open>TypeOther\<close>.
\<close>

datatype TarType =
    TypeReg | TypeLink | TypeSymlink | TypeChar | TypeBlock | TypeDir | TypeFifo
  | TypeOther char

record TarHeader =
  Typeflag :: TarType
  TarName :: string
  TarLinkname :: string
  TarMode :: int
  TarSize :: int
  TarModTime :: int

text \<open>
  The tar stream as \<open>tarReader.Next\<close> delivers it: a header with the bytes of its
  body, or the error at which reading stops; the end of the list is \<open>io.EOF\<close>.
\<close>

type_synonym TarEntry = "TarHeader \<times> string"
type_synonym TarStream = "(error + TarEntry) list"

text \<open>\<open>type inodeCount struct { Count int; Inode int32 }\<close> (lines 546-549).\<close>

record inodeCount =
  Count :: int
  Inode :: int

text \<open>
  \<open>cpio.Header\<close>, with the fields \<open>Build\<close> sets; the others keep their zero
  value. The mode is a 32-bit mask.
\<close>

record CpioHeader =
  CpioName :: string
  CpioMode :: "32 word"
  CpioModTime :: int
  CpioSize :: int
  CpioLinks :: int
  CpioInode :: int
  CpioLinkname :: string

text \<open>
  The file-type bits of the newc format, as the cpio package names them: octal
  \<open>0100000\<close>, \<open>040000\<close> and \<open>0120000\<close>.
\<close>

definition cpio_TypeReg :: "32 word" where "cpio_TypeReg = 32768"
definition cpio_TypeDir :: "32 word" where "cpio_TypeDir = 16384"
definition cpio_TypeSymlink :: "32 word" where "cpio_TypeSymlink = 40960"

text \<open>
  What \<open>Build\<close> takes from outside during the two passes: \<open>filepath.Clean\<close>, the
  draws of \<open>rand.Int32\<close> (the \<open>k\<close>-th draw is \<open>randInt32 k\<close>), the outcome of
  rewinding the tar file, and the outcomes of the cpio writer's \<open>WriteHeader\<close> and
  \<open>Write\<close>.
\<close>

record PackEnv =
  Clean :: "string \<Rightarrow> string"
  randInt32 :: "nat \<Rightarrow> int"
  Seek :: "error option"
  WriteHeader :: "CpioHeader \<Rightarrow> error option"
  Write :: "CpioHeader \<Rightarrow> string \<Rightarrow> error option"

text \<open>
  Pass 1 (lines 552-587): count the links of every path. \<open>fileCount\<close> is the Go
  map, \<open>k\<close> the number of random draws made so far. A lookup of a missing key in
  the second regular-file branch (line 583 reads \<open>fileCount[tarHeader.Linkname]\<close>)
  gives the zero \<open>inodeCount\<close>.
\<close>

fun countLinks :: "PackEnv \<Rightarrow> TarStream \<Rightarrow> (string \<rightharpoonup> inodeCount) \<Rightarrow> nat
                      \<Rightarrow> error + (string \<rightharpoonup> inodeCount)" where
  "countLinks env [] fileCount k = Inr fileCount"
| "countLinks env (Inl err # rest) fileCount k = Inl (Error ''could not read tar header'')"
| "countLinks env (Inr (tarHeader, body) # rest) fileCount k =
     (if Typeflag tarHeader = TypeLink then
        (case fileCount (TarLinkname tarHeader) of
           None \<Rightarrow>
             countLinks env rest
               (fileCount(TarLinkname tarHeader \<mapsto> \<lparr>Count = 1, Inode = randInt32 env k\<rparr>))
               (Suc k)
         | Some c \<Rightarrow>
             countLinks env rest
               (fileCount(TarLinkname tarHeader \<mapsto> \<lparr>Count = Count c + 1, Inode = Inode c\<rparr>))
               k)
      else if Typeflag tarHeader = TypeReg then
        (case fileCount (TarName tarHeader) of
           None \<Rightarrow>
             countLinks env rest
               (fileCount(TarName tarHeader \<mapsto> \<lparr>Count = 1, Inode = randInt32 env k\<rparr>))
               (Suc k)
         | Some c \<Rightarrow>
             countLinks env rest
               (fileCount(TarName tarHeader \<mapsto>
                  \<lparr>Count = Count c + 1,
                   Inode = (case fileCount (TarLinkname tarHeader) of
                              None \<Rightarrow> 0 | Some l \<Rightarrow> Inode l)\<rparr>))
               k)
      else countLinks env rest fileCount k)"

text \<open>
  The header that pass 2 starts from (lines 605-612):
  \<open>tarHeader.FileInfo().Mode().Perm()\<close> is the low nine bits of the tar mode (mask octal \<open>0777\<close>).
\<close>

definition baseHeader :: "PackEnv \<Rightarrow> TarHeader \<Rightarrow> CpioHeader" where
  "baseHeader env tarHeader =
     \<lparr>CpioName = ''./'' @ Clean env (TarName tarHeader),
      CpioMode = (word_of_int (TarMode tarHeader) :: 32 word) AND 511,
      CpioModTime = TarModTime tarHeader,
      CpioSize = TarSize tarHeader,
      CpioLinks = 0,
      CpioInode = 0,
      CpioLinkname = []\<rparr>"

text \<open>
  The \<open>switch\<close> of pass 2 (lines 614-711) for one tar entry: \<open>None\<close> when nothing
  is written (block and character devices, fifos, unsupported types), otherwise the
  header handed to \<open>WriteHeader\<close> and, where \<open>Write\<close> is called, the bytes handed
  to it.
\<close>

definition convertEntry :: "PackEnv \<Rightarrow> (string \<rightharpoonup> inodeCount) \<Rightarrow> TarEntry
                             \<Rightarrow> (CpioHeader \<times> string option) option" where
  "convertEntry env fileCount entry =
     (let tarHeader = fst entry; cpioHeader = baseHeader env tarHeader in
      case Typeflag tarHeader of
        TypeBlock \<Rightarrow> None
      | TypeChar \<Rightarrow> None
      | TypeFifo \<Rightarrow> None
      | TypeSymlink \<Rightarrow>
          Some (cpioHeader\<lparr>CpioMode := CpioMode cpioHeader OR cpio_TypeSymlink,
                            CpioLinkname := TarLinkname tarHeader,
                            CpioSize := int (length (TarLinkname tarHeader))\<rparr>,
                Some (TarLinkname tarHeader))
      | TypeLink \<Rightarrow>
          (let h = cpioHeader\<lparr>CpioMode := CpioMode cpioHeader OR cpio_TypeReg,
                                CpioLinkname := TarLinkname tarHeader,
                                CpioSize := 0\<rparr>
           in Some (case fileCount (TarLinkname tarHeader) of
                      None \<Rightarrow> h
                    | Some c \<Rightarrow> h\<lparr>CpioLinks := Count c, CpioInode := Inode c\<rparr>,
                    None))
      | TypeReg \<Rightarrow>
          (let h = cpioHeader\<lparr>CpioMode := CpioMode cpioHeader OR cpio_TypeReg,
                                CpioLinkname := TarLinkname tarHeader,
                                CpioSize := TarSize tarHeader\<rparr>
           in Some (case fileCount (TarName tarHeader) of
                      None \<Rightarrow> h
                    | Some c \<Rightarrow> h\<lparr>CpioLinks := Count c, CpioInode := Inode c\<rparr>,
                    Some (snd entry)))
      | TypeDir \<Rightarrow>
          Some (cpioHeader\<lparr>CpioMode := CpioMode cpioHeader OR cpio_TypeDir\<rparr>, None)
      | TypeOther c \<Rightarrow> None)"

text \<open>
  Pass 2 (lines 596-712). \<open>archive\<close> is the cpio archive written so far: every
  header with the bytes that follow it.
\<close>

fun convertEntries :: "PackEnv \<Rightarrow> (string \<rightharpoonup> inodeCount) \<Rightarrow> TarStream
                          \<Rightarrow> (CpioHeader \<times> string) list
                          \<Rightarrow> error + (CpioHeader \<times> string) list" where
  "convertEntries env fileCount [] archive = Inr archive"
| "convertEntries env fileCount (Inl err # rest) archive =
     Inl (Error ''could not read tar header'')"
| "convertEntries env fileCount (Inr entry # rest) archive =
     (case convertEntry env fileCount entry of
        None \<Rightarrow> convertEntries env fileCount rest archive
      | Some (cpioHeader, body) \<Rightarrow>
          (case WriteHeader env cpioHeader of
             Some err \<Rightarrow> Inl (Error ''could not write CPIO header'')
           | None \<Rightarrow>
               (case body of
                  None \<Rightarrow> convertEntries env fileCount rest (archive @ [(cpioHeader, [])])
                | Some bytes \<Rightarrow>
                    (case Write env cpioHeader bytes of
                       Some err \<Rightarrow> Inl (Error ''could not write CPIO data'')
                     | None \<Rightarrow>
                         convertEntries env fileCount rest
                           (archive @ [(cpioHeader, bytes)])))))"

text \<open>Lines 544-712 of \<open>Build\<close>: both passes over the same tar file.\<close>

definition packTar :: "PackEnv \<Rightarrow> TarStream \<Rightarrow> error + (CpioHeader \<times> string) list" where
  "packTar env tarStream =
     (case countLinks env tarStream Map.empty 0 of
        Inl err \<Rightarrow> Inl err
      | Inr fileCount \<Rightarrow>
          (case Seek env of
             Some err \<Rightarrow> Inl (Error ''could not seek to start of tarball'')
           | None \<Rightarrow> convertEntries env fileCount tarStream []))"

text \<open>
  An entry belongs to the link group of the path \<open>a\<close> when pass 1 counts it under
  the key \<open>a\<close>: a hard link to \<open>a\<close>, or a regular file named \<open>a\<close>.
\<close>

definition touches :: "string \<Rightarrow> TarEntry \<Rightarrow> bool" where
  "touches a entry \<longleftrightarrow>
     (Typeflag (fst entry) = TypeLink \<and> TarLinkname (fst entry) = a)
     \<or> (Typeflag (fst entry) = TypeReg \<and> TarName (fst entry) = a)"

text \<open>
  For the proofs: one step of pass 1 as a function on the pair of the map and the
  number of draws, and the archive entries that pass 2 appends for one tar entry when
  the writer accepts them.
\<close>

definition countStep :: "PackEnv \<Rightarrow> (string \<rightharpoonup> inodeCount) \<times> nat \<Rightarrow> TarEntry
                          \<Rightarrow> (string \<rightharpoonup> inodeCount) \<times> nat" where
  "countStep env st entry =
     (let fileCount = fst st; k = snd st; tarHeader = fst entry in
      if Typeflag tarHeader = TypeLink then
        (case fileCount (TarLinkname tarHeader) of
           None \<Rightarrow>
               (fileCount(TarLinkname tarHeader \<mapsto> \<lparr>Count = 1, Inode = randInt32 env k\<rparr>),
               Suc k)
         | Some c \<Rightarrow>
               (fileCount(TarLinkname tarHeader \<mapsto> \<lparr>Count = Count c + 1, Inode = Inode c\<rparr>),
               k))
      else if Typeflag tarHeader = TypeReg then
        (case fileCount (TarName tarHeader) of
           None \<Rightarrow>
               (fileCount(TarName tarHeader \<mapsto> \<lparr>Count = 1, Inode = randInt32 env k\<rparr>),
               Suc k)
         | Some c \<Rightarrow>
               (fileCount(TarName tarHeader \<mapsto>
                  \<lparr>Count = Count c + 1,
                   Inode = (case fileCount (TarLinkname tarHeader) of
                              None \<Rightarrow> 0 | Some l \<Rightarrow> Inode l)\<rparr>),
               k))
      else (fileCount, k))"

definition archived :: "PackEnv \<Rightarrow> (string \<rightharpoonup> inodeCount) \<Rightarrow> TarEntry
                             \<Rightarrow> (CpioHeader \<times> string) list" where
  "archived env fileCount entry =
     (case convertEntry env fileCount entry of
        None \<Rightarrow> []
      | Some (h, None) \<Rightarrow> [(h, [])]
      | Some (h, Some bytes) \<Rightarrow> [(h, bytes)])"

text \<open>
  A concrete tar stream: the regular file \<open>a\<close> with four bytes of payload, then
  \<open>b\<close>, a hard link to \<open>a\<close>; a writer that accepts everything.
\<close>

definition pack_env_example :: PackEnv where
  "pack_env_example =
     \<lparr>Clean = (\<lambda>p. p), randInt32 = (\<lambda>k. 1804289383 + int k), Seek = None,
      WriteHeader = (\<lambda>h. None), Write = (\<lambda>h bytes. None)\<rparr>"

definition tar_a :: TarHeader where
  "tar_a = \<lparr>Typeflag = TypeReg, TarName = ''a'', TarLinkname = [], TarMode = 420,
            TarSize = 4, TarModTime = 1700000000\<rparr>"

definition tar_b :: TarHeader where
  "tar_b = \<lparr>Typeflag = TypeLink, TarName = ''b'', TarLinkname = ''a'', TarMode = 420,
            TarSize = 0, TarModTime = 1700000000\<rparr>"

section \<open>Progress tree: \<open>tui/processtree/processtree.go\<close>\<close>

text \<open>
  \<open>SpinnerProcessStatus\<close> is an \<open>iota\<close> enumeration of seven values, kept in the
  order of the source.
\<close>

datatype SpinnerProcessStatus =
    StatusPending
  | StatusRunning
  | StatusRunningChild
  | StatusRunningButAChildHasFailed
  | StatusFailed
  | StatusFailedChild
  | StatusSuccess

text \<open>
  \<open>ProcessTreeItem\<close>: only the fields that \<open>getNextReadyChildren\<close> reads
  (\<open>status\<close>, \<open>children\<close>) and the two labels that tell nodes apart are kept; the
  spinner, timer, log buffer and worker function are not read by the scheduler.
\<close>

datatype ProcessTreeItem =
  ProcessTreeItem (textLeft: string) (textRight: string)
                  (status: SpinnerProcessStatus) (children: "ProcessTreeItem list")

text \<open>
  The loop over the immediate children that counts \<open>failed\<close> and \<open>completed\<close>
  (lines 277-284).
\<close>

definition count_failed :: "ProcessTreeItem list \<Rightarrow> nat" where
  "count_failed cs =
     length (filter (\<lambda>c. status c = StatusFailed \<or> status c = StatusFailedChild) cs)"

definition count_completed :: "ProcessTreeItem list \<Rightarrow> nat" where
  "count_completed cs =
     length (filter (\<lambda>c. \<not> (status c = StatusFailed \<or> status c = StatusFailedChild)
                          \<and> status c = StatusSuccess) cs)"

text \<open>
  The body of the \<open>for\<close> loop of \<open>getNextReadyChildren\<close> for one \<open>item\<close>
  (lines 260-295), given the slice \<open>items\<close> collected so far and the
  \<open>subprocesses\<close> returned by the recursive call (\<open>nil\<close> for an item without
  children): it returns the new \<open>items\<close>.
\<close>

definition nextReadyItem :: "bool \<Rightarrow> ProcessTreeItem list \<Rightarrow> ProcessTreeItem list
                          \<Rightarrow> ProcessTreeItem \<Rightarrow> ProcessTreeItem list" where
  "nextReadyItem parallel items subprocesses item =
     (let cs = children item;
          items1 = (if length cs > 0
                    then (if parallel then items @ subprocesses
                          else if length subprocesses > 0 then items @ [hd subprocesses]
                          else items)
                    else items);
          failed = (if length cs > 0 then count_failed cs else 0);
          completed = (if length cs > 0 then count_completed cs else 0)
      in if length subprocesses = 0 \<and> failed = 0
            \<and> (parallel \<or> (length items1 = 0 \<and> \<not> parallel))
            \<and> completed = length cs
            \<and> (status item = StatusPending \<or> status item = StatusRunningChild)
         then items1 @ [item]
         else items1)"

text \<open>
  \<open>getNextReadyChildren\<close> (lines 256-299). \<open>nextReadyLoop parallel items tree\<close> is
  the \<open>for\<close> loop over \<open>tree\<close> started with the accumulator \<open>items\<close>; the recursive
  call on \<open>item.children\<close> starts a fresh loop with an empty accumulator.
\<close>

fun nextReadyLoop :: "bool \<Rightarrow> ProcessTreeItem list \<Rightarrow> ProcessTreeItem list
                          \<Rightarrow> ProcessTreeItem list" where
  "nextReadyLoop parallel items [] = items"
| "nextReadyLoop parallel items (ProcessTreeItem l r st cs # rest) =
     nextReadyLoop parallel
       (nextReadyItem parallel items
          (if length cs > 0 then nextReadyLoop parallel [] cs else [])
          (ProcessTreeItem l r st cs))
       rest"

definition getNextReadyChildren :: "bool \<Rightarrow> ProcessTreeItem list \<Rightarrow> ProcessTreeItem list" where
  "getNextReadyChildren parallel tree = nextReadyLoop parallel [] tree"

text \<open>What the scheduler requires of a node it hands out.\<close>

definition ready_node :: "ProcessTreeItem \<Rightarrow> bool" where
  "ready_node item \<longleftrightarrow>
     list_all (\<lambda>c. status c = StatusSuccess) (children item)
     \<and> (status item = StatusPending \<or> status item = StatusRunningChild)"

section \<open>Compose orchestrator: the service loop of \<open>CreateOptions.Run\<close>\<close>

text \<open>
  \<open>machineapi.MachineState\<close> and the part of a machine record that the loop reads.
\<close>

datatype MachineState =
    MachineStateUnknown
  | MachineStateCreated
  | MachineStateFailed
  | MachineStateRestarting
  | MachineStateRunning
  | MachineStatePaused
  | MachineStateSuspended
  | MachineStateExited
  | MachineStateErrored

record Machine =
  MachineName :: string
  MachineStatus :: MachineState
  MachinePlatform :: string

text \<open>
  The collaborators that \<open>Run\<close> calls and that live outside the orchestrator: the
  sub-commands \<open>build\<close>, \<open>pkg\<close>, \<open>pull\<close>, \<open>run\<close>, \<open>remove\<close>, the package
  catalog and the machine controller. Each is a function from its arguments to its
  outcome (\<open>None\<close> is the \<open>nil\<close> error); the catalog answers with the number of
  packages found.
\<close>

record CreateEnv =
  PlatArchFromService :: "ServiceConfig \<Rightarrow> error + (string \<times> string)"
  Catalog :: "bool \<Rightarrow> string \<Rightarrow> string \<Rightarrow> string \<Rightarrow> string \<Rightarrow> error + nat"
  pullRun :: "string \<Rightarrow> string \<Rightarrow> string \<Rightarrow> error option"
  buildRun :: "string \<Rightarrow> string \<Rightarrow> string \<Rightarrow> error option"
  pkgRun :: "string \<Rightarrow> string \<Rightarrow> string \<Rightarrow> string \<Rightarrow> error option"
  runRun :: "string \<Rightarrow> string \<Rightarrow> string \<Rightarrow> string \<Rightarrow> error option"
  removeRun :: "string \<Rightarrow> string \<Rightarrow> error option"
  machineGet :: "string \<Rightarrow> error + Machine"

text \<open>\<open>buildService\<close> (lines 432-447).\<close>

definition buildService :: "CreateEnv \<Rightarrow> ServiceConfig \<Rightarrow> error option" where
  "buildService env service =
     (case Build service of
        None \<Rightarrow> Some (Error (''service '' @ Name service @ '' has no build context''))
      | Some b \<Rightarrow>
          (case PlatArchFromService env service of
             Inl err \<Rightarrow> Some err
           | Inr (plat, arch) \<Rightarrow> buildRun env plat arch (Context b)))"

text \<open>
  \<open>pkgService\<close> (lines 449-466). It reads \<open>service.Build.Context\<close> without a
  check; on a \<open>nil\<close> \<open>Build\<close> that is a nil-pointer panic.
\<close>

definition pkgService :: "CreateEnv \<Rightarrow> ServiceConfig \<Rightarrow> error option" where
  "pkgService env service =
     (case PlatArchFromService env service of
        Inl err \<Rightarrow> Some err
      | Inr (plat, arch) \<Rightarrow>
          (case Build service of
             None \<Rightarrow> Some (Panic ''nil pointer dereference'')
           | Some b \<Rightarrow> pkgRun env arch (Image service) plat (Context b)))"

text \<open>
  \<open>strings.SplitN(service.Image, ":", 2)\<close>: the name before the first colon and,
  when there is a colon, the version after it.
\<close>

definition splitImage :: "string \<Rightarrow> string \<times> string option" where
  "splitImage img =
     (let imageName = takeWhile (\<lambda>c. c \<noteq> CHR '':'') img;
          rest = dropWhile (\<lambda>c. c \<noteq> CHR '':'') img
      in (imageName, if rest = [] then None else Some (tl rest)))"

text \<open>\<open>ensureServiceIsPackaged\<close> (lines 370-430).\<close>

definition ensureServiceIsPackaged :: "CreateEnv \<Rightarrow> ServiceConfig \<Rightarrow> error option" where
  "ensureServiceIsPackaged env service0 =
     (case PlatArchFromService env service0 of
        Inl err \<Rightarrow> Some err
      | Inr (plat, arch) \<Rightarrow>
          (let imageName = fst (splitImage (Image service0));
               imageVersion = (case snd (splitImage (Image service0)) of
                                 None \<Rightarrow> ''latest'' | Some v \<Rightarrow> v);
               service = service0\<lparr>Image := imageName @ '':'' @ imageVersion\<rparr>
           in case Catalog env False arch imageName plat imageVersion of
                Inl err \<Rightarrow> Some err
              | Inr found \<Rightarrow>
                  if found \<noteq> 0 then None
                  else (case Catalog env True arch imageName plat imageVersion of
                          Inl err \<Rightarrow> Some err
                        | Inr remote \<Rightarrow>
                            if remote \<noteq> 0 then pullRun env plat arch (Image service)
                            else (case buildService env service of
                                    Some err \<Rightarrow> Some err
                                  | None \<Rightarrow> pkgService env service))))"

text \<open>
  \<open>createService\<close> (lines 468-549). The argument lists it formats for the \<open>run\<close>
  sub-command (networks, volumes, environment, ports, memory) do not decide whether
  the loop goes on; of the \<open>RunOptions\<close> the model hands over the architecture, the
  platform, the machine name and the positional argument.
\<close>

definition createService :: "CreateEnv \<Rightarrow> ServiceConfig \<Rightarrow> error option" where
  "createService env service =
     (case PlatArchFromService env service of
        Inl err \<Rightarrow> Some err
      | Inr (plat, arch) \<Rightarrow>
          if Image service \<noteq> [] then runRun env arch plat (ContainerName service) (Image service)
          else (case Build service of
                  None \<Rightarrow> Some (Panic ''nil pointer dereference'')
                | Some b \<Rightarrow> runRun env arch plat (ContainerName service) (Context b)))"

text \<open>
  What the loop leaves behind, whether or not \<open>Run\<close> returns an error:
  \<open>projectMachines\<close> (written back by the deferred update), the error lines it
  logged, and the services for which \<open>createService\<close> was called, in order.
\<close>

record LoopState =
  projectMachines :: "string list"
  logged :: "string list"
  attempted :: "string list"

text \<open>
  Lines 316-321: drop the first entry of \<open>projectMachines\<close> with the machine's name.
\<close>

fun removeFirst :: "string \<Rightarrow> string list \<Rightarrow> string list" where
  "removeFirst n [] = []"
| "removeFirst n (m # ms) = (if m = n then ms else m # removeFirst n ms)"

text \<open>
  One pass of the body of the loop over \<open>orderedServices\<close> (lines 298-347). The
  result is \<open>(Some err, st)\<close> where the source has \<open>return err\<close>, which leaves
  \<open>Run\<close> itself, and \<open>(None, st)\<close> where the loop goes on to the next service.
  The inner loop over \<open>machines.Items\<close> acts on the first machine whose name is the
  service's container name and then breaks.
\<close>

definition serviceStep :: "CreateEnv \<Rightarrow> Machine list \<Rightarrow> ServiceConfig \<Rightarrow> LoopState
                              \<Rightarrow> error option \<times> LoopState" where
  "serviceStep env machines service st =
     (let create = (\<lambda>st1.
            case (if Image service = [] then buildService env service
                  else ensureServiceIsPackaged env service) of
              Some err \<Rightarrow> (Some err, st1)
            | None \<Rightarrow>
                (let st2 = st1\<lparr>attempted := attempted st1 @ [Name service]\<rparr>;
                     st3 = (case createService env service of
                              None \<Rightarrow> st2
                            | Some err \<Rightarrow>
                                st2\<lparr>logged := logged st2
                                       @ [''failed to create service '' @ Name service]\<rparr>)
                 in case machineGet env (ContainerName service) of
                      Inr machine \<Rightarrow>
                        if MachineStatus machine = MachineStateCreated
                        then (None, st3\<lparr>projectMachines :=
                                          projectMachines st3 @ [MachineName machine]\<rparr>)
                        else (None, st3)
                    | Inl err \<Rightarrow> (Some err, st3)))
      in case find (\<lambda>machine. ContainerName service = MachineName machine) machines of
           None \<Rightarrow> create st
         | Some machine \<Rightarrow>
             if MachineStatus machine = MachineStateRunning
                \<or> MachineStatus machine = MachineStateCreated
             then (None, st)
             else (case removeRun env (MachinePlatform machine) (ContainerName service) of
                     Some err \<Rightarrow> (Some err, st)
                   | None \<Rightarrow>
                       create (st\<lparr>projectMachines :=
                                    removeFirst (MachineName machine) (projectMachines st)\<rparr>)))"

fun serviceLoop :: "CreateEnv \<Rightarrow> Machine list \<Rightarrow> ServiceConfig list \<Rightarrow> LoopState
                        \<Rightarrow> error option \<times> LoopState" where
  "serviceLoop env machines [] st = (None, st)"
| "serviceLoop env machines (service # rest) st =
     (case serviceStep env machines service st of
        (Some err, st') \<Rightarrow> (Some err, st')
      | (None, st') \<Rightarrow> serviceLoop env machines rest st')"

text \<open>
  A concrete run, used to evaluate the loop: the build of \<open>app\<close> fails, the
  \<open>run\<close> sub-command fails for \<open>web\<close>, and \<open>db\<close> is found in the local
  catalog and can be created.
\<close>

definition create_env_example :: CreateEnv where
  "create_env_example = \<lparr>PlatArchFromService = (\<lambda>s. Inr (''qemu'', ''x86_64'')),
           Catalog = (\<lambda>remote arch name plat version. Inr 1),
           pullRun = (\<lambda>plat arch img. None),
           buildRun = (\<lambda>plat arch ctx. if ctx = ''./broken'' then Some (Error ''build failed'') else None),
           pkgRun = (\<lambda>arch name plat ctx. None),
           runRun = (\<lambda>arch plat name arg. if name = ''p-web'' then Some (Error ''run failed'') else None),
           removeRun = (\<lambda>plat name. None),
           machineGet = (\<lambda>name. Inr \<lparr>MachineName = name,
              MachineStatus = (if name = ''p-web'' then MachineStateUnknown else MachineStateCreated),
              MachinePlatform = ''qemu''\<rparr>)\<rparr>"

definition svc_app :: ServiceConfig where
  "svc_app = \<lparr>Name = ''app'', ContainerName = ''p-app'', Image = [],
              Build = Some \<lparr>Context = ''./broken''\<rparr>, DependsOn = [], Networks = None\<rparr>"

definition svc_db :: ServiceConfig where
  "svc_db = \<lparr>Name = ''db'', ContainerName = ''p-db'', Image = ''postgres:16'',
              Build = None, DependsOn = [], Networks = None\<rparr>"

definition svc_web :: ServiceConfig where
  "svc_web = \<lparr>Name = ''web'', ContainerName = ''p-web'', Image = ''nginx'',
              Build = None, DependsOn = [], Networks = None\<rparr>"

definition empty_LoopState :: LoopState where
  "empty_LoopState = \<lparr>projectMachines = [], logged = [], attempted = []\<rparr>"

text \<open>A machine left over from an earlier run of the service \<open>web\<close>.\<close>

definition stale_web :: Machine where
  "stale_web = \<lparr>MachineName = ''p-web'', MachineStatus = MachineStateExited,
                MachinePlatform = ''qemu''\<rparr>"

section \<open>OCI manifest assembler: what \<open>Save\<close> returns and writes\<close>

lemma desc_writeAnnotation:
  "map_option Digest (desc (writeAnnotation key val m)) = map_option Digest (desc m)"
  unfolding writeAnnotation_def by (cases "desc m") simp_all

lemma desc_SetLabel: "desc (SetLabel m key val) = desc m"
  unfolding SetLabel_def by simp

lemma assembleManifest_desc:
  assumes "assembleManifest env m ref = (Inr (configBlob, manifestJson, d), m')"
  shows "desc m' = Some d"
  using assms unfolding assembleManifest_def
  by (auto simp: Let_def split: sum.splits)

lemma assembleManifest_keeps_digest:
  assumes "assembleManifest env m ref = (Inr (configBlob, manifestJson, d), m')"
    and d0: "desc m = Some d0"
  shows "Digest d = Digest d0"
proof -
  define m2 where "m2 = (m\<lparr>config := configToMarshal m\<rparr>)\<lparr>config :=
       (config (m\<lparr>config := configToMarshal m\<rparr>))\<lparr>OSFeatures :=
          afterCompact (OSFeatures (config (m\<lparr>config := configToMarshal m\<rparr>)))\<rparr>\<rparr>"
  define m3 where "m3 = writeAnnotation AnnotationImageName (RefString ref)
                (writeAnnotation (AnnotationKraftKitVersion env) (Version env)
                  (writeAnnotation AnnotationCreated (Now env)
                    (writeAnnotation AnnotationRefName (RefContext ref) m2)))"
  have "desc m2 = Some d0" unfolding m2_def using d0 by simp
  then have "map_option Digest (desc m3) = Some (Digest d0)"
    unfolding m3_def by (simp add: desc_writeAnnotation)
  then obtain d3 where d3: "desc m3 = Some d3" "Digest d3 = Digest d0" by auto
  show ?thesis
    using assms(1) d3 unfolding assembleManifest_def Let_def m3_def m2_def
    by (auto split: sum.splits)
qed

lemma storeManifest_returns:
  assumes "storeManifest env h m ref configBlob manifestJson d = (Inr D, m1, h1)"
  shows "D = d \<and> desc m1 = desc m"
  using assms unfolding storeManifest_def
  by (auto simp: Let_def split: prod.splits sum.splits option.splits if_splits)

lemma Save_returns_desc:
  assumes "Save env h m fullref = (Inr D, m1, h1)"
  shows "desc m1 = Some D"
  using assms unfolding Save_def
  by (auto split: option.splits sum.splits prod.splits if_splits
      dest!: storeManifest_returns assembleManifest_desc)

lemma Save_keeps_digest:
  assumes d: "desc m = Some d"
    and s: "Save env h m fullref = (Inr D, m1, h1)"
  shows "Digest D = Digest d"
  using s d unfolding Save_def
  by (auto split: option.splits sum.splits prod.splits if_splits
      dest!: storeManifest_returns assembleManifest_keeps_digest)

text \<open>
  Claim C1, second half, as the code behaves. Once a \<open>Save\<close> has succeeded with
  descriptor \<open>D\<close>, a \<open>Save\<close> that follows \<open>SetLabel\<close> and succeeds returns a
  descriptor with the digest of \<open>D\<close>, for every handler, encoder and reference:
  \<open>SetLabel\<close> resets \<open>saved\<close>, but \<open>manifest.desc\<close> is generated only while it is
  \<open>nil\<close>, so the label never reaches the digest. (The first half of the claim
  holds: with \<open>saved\<close> set, \<open>Save\<close> returns \<open>manifest.desc\<close> at once.)
\<close>

theorem save_after_set_label_returns_first_digest:
  assumes first: "Save env h m fullref = (Inr D, m1, h1)"
    and second: "Save env' h' (SetLabel m1 key val) fullref' = (Inr D', m2, h2)"
  shows "Digest D' = Digest D"
  using Save_keeps_digest[OF _ second, of D] Save_returns_desc[OF first]
  by (simp add: desc_SetLabel)


text \<open>
  The witness runs the scenario on the concrete handler: save, set a label, save
  again. Both saves succeed with the same digest, although a manifest that carries
  the label from the start is saved under another digest.
\<close>

theorem save_after_set_label_returns_first_digest_witness:
  "case Save save_env_example [] manifest_example ''unikraft.org/app:latest'' of
     (r1, m1, h1) \<Rightarrow>
       (case Save save_env_example h1 (SetLabel m1 ''k'' ''v'') ''unikraft.org/app:latest'' of
          (r2, m2, h2) \<Rightarrow>
            \<not> isl r1 \<and> \<not> isl r2 \<and> Digest (projr r2) = Digest (projr r1)
            \<and> Digest (projr (fst (Save save_env_example [] (SetLabel manifest_example ''k'' ''v'')
                                   ''unikraft.org/app:latest'')))
                \<noteq> Digest (projr r1))"
proof -
  obtain r1 m1 h1 where s1: "Save save_env_example [] manifest_example ''unikraft.org/app:latest''
      = (r1, m1, h1)" by (cases "Save save_env_example [] manifest_example ''unikraft.org/app:latest''")
  obtain r2 m2 h2 where s2: "Save save_env_example h1 (SetLabel m1 ''k'' ''v'') ''unikraft.org/app:latest''
      = (r2, m2, h2)"
    by (cases "Save save_env_example h1 (SetLabel m1 ''k'' ''v'') ''unikraft.org/app:latest''")
  have e: "case Save save_env_example [] manifest_example ''unikraft.org/app:latest'' of
     (r1, m1, h1) \<Rightarrow>
       (case Save save_env_example h1 (SetLabel m1 ''k'' ''v'') ''unikraft.org/app:latest'' of
          (r2, m2, h2) \<Rightarrow>
            \<not> isl r1 \<and> \<not> isl r2
            \<and> Digest (projr (fst (Save save_env_example [] (SetLabel manifest_example ''k'' ''v'')
                                   ''unikraft.org/app:latest'')))
                \<noteq> Digest (projr r1))"
    by code_simp
  from e s1 s2 have ok: "\<not> isl r1" "\<not> isl r2"
     and fresh: "Digest (projr (fst (Save save_env_example [] (SetLabel manifest_example ''k'' ''v'')
                                   ''unikraft.org/app:latest''))) \<noteq> Digest (projr r1)"
    by simp_all
  from ok obtain D D' where r: "r1 = Inr D" "r2 = Inr D'"
    by (cases r1; cases r2) simp_all
  from save_after_set_label_returns_first_digest [OF s1[unfolded r] s2[unfolded r]]
  have "Digest D' = Digest D" .
  with ok fresh r show ?thesis unfolding s1 by (simp add: s2)
qed

text \<open>
  Claim C2 at concrete inputs. The features \<open>1, 2, 10\<close> reach the encoder as
  \<open>10, 2, 1\<close>: numeric tokens are put in descending order. The features
  \<open>b, a, a\<close> reach it as \<open>a, a, b\<close>: the duplicate is still there, since
  \<open>slices.Compact\<close> runs after \<open>json.Marshal\<close> and only its result, stored in the
  platform, is free of duplicates. The last two conjuncts read the same lists from
  the config blob that \<open>Save\<close> builds with the concrete encoder.
\<close>

theorem os_features_sorted_descending_not_deduplicated:
  "OSFeatures (configToMarshal (SetOSFeature NewManifest [''1'', ''2'', ''10'']))
     = [''10'', ''2'', ''1'']
   \<and> OSFeatures (configToMarshal (SetOSFeature NewManifest [''b'', ''a'', ''a'']))
     = [''a'', ''a'', ''b'']
   \<and> map_option (\<lambda>mf. Digest (ManifestConfig mf))
        (manifest (fst (snd (Save save_env_example []
           (SetOSFeature NewManifest [''1'', ''2'', ''10'']) ''unikraft.org/app:latest''))))
     = Some ''sha256:{arch: os: features:10,2,1, labels: diff_ids:}''
   \<and> map_option (\<lambda>mf. Digest (ManifestConfig mf))
        (manifest (fst (snd (Save save_env_example []
           (SetOSFeature NewManifest [''b'', ''a'', ''a'']) ''unikraft.org/app:latest''))))
     = Some ''sha256:{arch: os: features:a,a,b, labels: diff_ids:}''"
  by code_simp

section \<open>OCI manifest assembler: the kernel, debug kernel and initrd setters\<close>

lemma map_of_mapStore: "map_of (mapStore k v kvs) k' = (if k' = k then Some v else map_of kvs k')"
  by (induction kvs) auto

lemma hasAnnotation_WithLayerAnnotation:
  "hasAnnotation key (WithLayerAnnotation key' val layer) \<longleftrightarrow> key = key' \<or> hasAnnotation key layer"
  unfolding hasAnnotation_def WithLayerAnnotation_def by (simp add: map_of_mapStore)

lemma filter_annotated_append:
  assumes "hasAnnotation key layer"
  shows "filter (hasAnnotation key) (filter (\<lambda>l. \<not> hasAnnotation key l) ls @ [layer]) = [layer]"
  using assms by (induction ls) auto

lemma SetKernel_layers:
  assumes "SetKernel buildLayer m path = (None, m', removed)"
  shows "\<exists>built. buildLayer MediaTypeImageLayer path WellKnownKernelPath = Inr built
        \<and> layers m' = filter (\<lambda>l. \<not> hasAnnotation AnnotationKernelPath l) (layers m)
             @ [WithLayerAnnotation AnnotationKernelPath WellKnownKernelPath built]
        \<and> filter (hasAnnotation AnnotationKernelPath) (layers m')
             = [WithLayerAnnotation AnnotationKernelPath WellKnownKernelPath built]"
  using assms unfolding SetKernel_def dropAnnotated_def AddLayer_def NewLayerFromFile_def
  by (auto simp: Let_def hasAnnotation_WithLayerAnnotation filter_annotated_append
      split: sum.splits)

lemma SetKernelDbg_layers:
  assumes "SetKernelDbg buildLayer m path = (None, m', removed)"
  shows "\<exists>built. buildLayer MediaTypeImageLayer path WellKnownKernelPath = Inr built
        \<and> layers m' = filter (\<lambda>l. \<not> hasAnnotation AnnotationKernelDbgPath l) (layers m)
             @ [WithLayerAnnotation AnnotationKernelDbgPath WellKnownKernelDbgPath built]
        \<and> filter (hasAnnotation AnnotationKernelDbgPath) (layers m')
             = [WithLayerAnnotation AnnotationKernelDbgPath WellKnownKernelDbgPath built]"
  using assms unfolding SetKernelDbg_def dropAnnotated_def AddLayer_def NewLayerFromFile_def
  by (auto simp: Let_def hasAnnotation_WithLayerAnnotation filter_annotated_append
      split: sum.splits)

lemma SetInitrd_layers:
  assumes "SetInitrd buildLayer m path = (None, m', removed)"
  shows "\<exists>built. buildLayer MediaTypeImageLayer path WellKnownInitrdPath = Inr built
        \<and> layers m' = filter (\<lambda>l. \<not> hasAnnotation AnnotationKernelInitrdPath l) (layers m)
             @ [WithLayerAnnotation AnnotationKernelInitrdPath WellKnownInitrdPath built]
        \<and> filter (hasAnnotation AnnotationKernelInitrdPath) (layers m')
             = [WithLayerAnnotation AnnotationKernelInitrdPath WellKnownInitrdPath built]"
  using assms unfolding SetInitrd_def dropAnnotated_def AddLayer_def NewLayerFromFile_def
  by (auto simp: Let_def hasAnnotation_WithLayerAnnotation filter_annotated_append
      split: sum.splits)

text \<open>
  Claim C3 at a concrete input. The layer that \<open>SetKernelDbg\<close> appends is built
  for the destination \<open>/unikraft/bin/kernel\<close>, the destination of \<open>SetKernel\<close>,
  while its annotation names \<open>/unikraft/bin/kernel.dbg\<close>; \<open>SetKernel\<close> and
  \<open>SetInitrd\<close> build their layer for their own destination.
\<close>

theorem debug_kernel_layer_built_for_kernel_destination:
  "map dst (layers (fst (snd (SetKernelDbg build_layer_example NewManifest ''vmlinux.dbg''))))
     = [''/unikraft/bin/kernel'']
   \<and> map dst (layers (fst (snd (SetKernel build_layer_example NewManifest ''vmlinux''))))
     = [''/unikraft/bin/kernel'']
   \<and> map dst (layers (fst (snd (SetInitrd build_layer_example NewManifest ''initrd.cpio''))))
     = [''/unikraft/initrd'']
   \<and> map (\<lambda>l. Annotations (blobDesc (blob l)))
        (layers (fst (snd (SetKernelDbg build_layer_example NewManifest ''vmlinux.dbg''))))
     = [[(''org.unikraft.kernel.dbg.path'', ''/unikraft/bin/kernel.dbg'')]]"
  by code_simp

section \<open>IP allocator: the subnet check and the reserved-address map\<close>

text \<open>
  \<open>ip\<close> is the slice \<open>subnet.IP\<close>, and \<open>IncreaseIP\<close> writes to that slice: the
  test \<open>subnet.Contains(ip)\<close> compares the array with itself and always holds, so
  the error of line 250 is never returned.
\<close>

lemma contains_shared_slice: "ContainsRef store subnet (NetIPRef subnet)"
  unfolding ContainsRef_def ContainsIP_def by simp

lemma scanFree_same_slice:
  assumes "scanFree used name subnet store ip = Some y"
  shows "snd y = ip"
  using assms
proof (induction rule: scanFree.raw_induct[rotated 1, consumes 1, case_names step])
  case (step scan used name subnet store ip y)
  show ?case
  proof (cases "ContainsRef store subnet ip \<and> usedExists used name (IPString (store ip))")
    case True
    with step.hyps have "scan used name subnet (store(ip := incrementBytes (store ip))) ip = Some y"
      by (simp add: IncreaseIP_def)
    then show ?thesis by (rule step.IH)
  next
    case False
    with step.hyps show ?thesis by auto
  qed
qed

lemma scanFree_contains:
  assumes "scanFree used name \<lparr>NetIPRef = r, NetMaskBytes = m\<rparr> store r = Some (store', ip')"
  shows "ContainsRef store' \<lparr>NetIPRef = r, NetMaskBytes = m\<rparr> ip'"
  using scanFree_same_slice[OF assms] contains_shared_slice[of store' "\<lparr>NetIPRef = r, NetMaskBytes = m\<rparr>"]
  by simp

lemma assignOne_never_exhausted:
  "assignOne networks name network used
     \<noteq> Some (Inl (Error (''not enough free IP addresses in network '' @ name)))"
proof
  assume a: "assignOne networks name network used
     = Some (Inl (Error (''not enough free IP addresses in network '' @ name)))"
  show False
    using a unfolding assignOne_def Let_def usedInsert_def
    by (auto split: if_splits option.splits sum.splits dest!: scanFree_contains)
qed

text \<open>
  Claim C4 at a concrete project. The subnet \<open>10.0.0.0/31\<close> holds the addresses
  \<open>10.0.0.0\<close> and \<open>10.0.0.1\<close>. \<open>AssignIPs\<close> returns without error and gives the
  second service \<open>10.0.0.2\<close>, which the subnet does not contain.
\<close>

theorem address_outside_subnet_assigned:
  "AssignIPs project_slash31 =
     Some (Inr \<lparr>Services =
          [(''a'', service_plain ''a'' ''net'' (Some \<lparr>Ipv4Address = ''10.0.0.1''\<rparr>)),
           (''b'', service_plain ''b'' ''net'' (Some \<lparr>Ipv4Address = ''10.0.0.2''\<rparr>))],
          ProjectNetworks =
            [(''net'', \<lparr>NetworkName = ''demo_net'', External = False,
                 IpamConfig = [\<lparr>Subnet = ''10.0.0.0/31'', Gateway = ''10.0.0.0''\<rparr>]\<rparr>)]\<rparr>)
   \<and> ParseIP ''10.0.0.2'' = Some [10, 0, 0, 2]
   \<and> map_option (\<lambda>(addr, subnet). ContainsIP subnet [10, 0, 0, 2]) (ParseCIDR ''10.0.0.0/31'')
       = Some False"
  by code_simp

text \<open>
  Claim C10. For a service attached to an external network that has an IPAM config,
  \<open>AssignIPs\<close> panics with a write to a \<open>nil\<close> map: at line 207 when the
  attachment has a static address, at line 254 when it has none. The first loop skips
  external networks, so no inner map exists for the key.
\<close>

theorem external_network_with_ipam_panics:
  "AssignIPs project_external_static = Some (Inl (Panic ''assignment to entry in nil map''))
   \<and> AssignIPs project_external_dynamic = Some (Inl (Panic ''assignment to entry in nil map''))"
  by code_simp

section \<open>CPIO packer: a file and its hard link share inode and link count\<close>

lemma countLinks_step:
  "countLinks env (Inr e # rest) fileCount k =
     countLinks env rest (fst (countStep env (fileCount, k) e)) (snd (countStep env (fileCount, k) e))"
proof -
  obtain h d where e: "e = (h, d)" by (cases e)
  show ?thesis
    unfolding e countStep_def by (simp split: option.splits)
qed

lemma countLinks_foldl:
  "countLinks env (map Inr es) fileCount k = Inr (fst (foldl (countStep env) (fileCount, k) es))"
proof (induction es arbitrary: fileCount k)
  case Nil
  then show ?case by simp
next
  case (Cons e es)
  have "countLinks env (map Inr (e # es)) fileCount k =
     countLinks env (map Inr es) (fst (countStep env (fileCount, k) e))
        (snd (countStep env (fileCount, k) e))"
    by (simp only: list.map countLinks_step)
  also have "\<dots> = Inr (fst (foldl (countStep env) (countStep env (fileCount, k) e) es))"
    by (simp only: Cons.IH prod.collapse)
  finally show ?case by simp
qed

lemma countStep_untouched:
  "\<not> touches a entry \<Longrightarrow> fst (countStep env st entry) a = fst st a"
  unfolding countStep_def touches_def by (auto simp: Let_def split: option.splits)

lemma foldl_countStep_untouched:
  "\<forall>e\<in>set es. \<not> touches a e \<Longrightarrow> fst (foldl (countStep env) st es) a = fst st a"
proof (induction es arbitrary: st)
  case Nil
  then show ?case by simp
next
  case (Cons e es)
  then show ?case by (simp add: countStep_untouched)
qed

lemma convertEntries_archived:
  assumes wh: "\<forall>h. WriteHeader env h = None" and wd: "\<forall>h bytes. Write env h bytes = None"
  shows "convertEntries env fileCount (map Inr es) archive
           = Inr (archive @ concat (map (archived env fileCount) es))"
proof (induction es arbitrary: archive)
  case Nil
  then show ?case by simp
next
  case (Cons e es)
  show ?case
    by (simp add: Cons.IH archived_def wh wd split: option.splits prod.splits)
qed


lemma countStep_reg_fresh:
  assumes "Typeflag h = TypeReg" and "fst st (TarName h) = None"
  shows "fst (countStep env st (h, d)) (TarName h)
           = Some \<lparr>Count = 1, Inode = randInt32 env (snd st)\<rparr>"
  using assms unfolding countStep_def by (simp add: Let_def)

lemma countStep_link_known:
  assumes "Typeflag h = TypeLink" and "fst st (TarLinkname h) = Some c"
  shows "fst (countStep env st (h, d)) (TarLinkname h)
           = Some \<lparr>Count = Count c + 1, Inode = Inode c\<rparr>"
  using assms unfolding countStep_def by (simp add: Let_def)

lemma fileCount_of_pair:
  assumes reg: "Typeflag ha = TypeReg"
    and link: "Typeflag hb = TypeLink"
    and target: "TarLinkname hb = TarName ha"
    and others: "\<forall>e\<in>set (pre @ mid @ post). \<not> touches (TarName ha) e"
  shows "\<exists>inode. fst (foldl (countStep env) (Map.empty, 0)
            (pre @ [(ha, da)] @ mid @ [(hb, db)] @ post)) (TarName ha)
          = Some \<lparr>Count = 2, Inode = inode\<rparr>"
proof -
  define s1 where "s1 = foldl (countStep env) (Map.empty, 0) pre"
  define s2 where "s2 = countStep env s1 (ha, da)"
  define s3 where "s3 = foldl (countStep env) s2 mid"
  define s4 where "s4 = countStep env s3 (hb, db)"
  define s5 where "s5 = foldl (countStep env) s4 post"
  have pre: "\<forall>e\<in>set pre. \<not> touches (TarName ha) e"
    and mid: "\<forall>e\<in>set mid. \<not> touches (TarName ha) e"
    and post: "\<forall>e\<in>set post. \<not> touches (TarName ha) e"
    using others by auto
  have 1: "fst s1 (TarName ha) = None"
    unfolding s1_def using foldl_countStep_untouched[OF pre] by simp
  have 2: "fst s2 (TarName ha) = Some \<lparr>Count = 1, Inode = randInt32 env (snd s1)\<rparr>"
    unfolding s2_def by (rule countStep_reg_fresh[OF reg 1])
  have 3: "fst s3 (TarName ha) = Some \<lparr>Count = 1, Inode = randInt32 env (snd s1)\<rparr>"
    unfolding s3_def using foldl_countStep_untouched[OF mid] 2 by simp
  have "fst s4 (TarLinkname hb) = Some \<lparr>Count = Count \<lparr>Count = 1, Inode = randInt32 env (snd s1)\<rparr> + 1,
            Inode = Inode \<lparr>Count = 1, Inode = randInt32 env (snd s1)\<rparr>\<rparr>"
    unfolding s4_def by (rule countStep_link_known[OF link]) (simp add: target 3)
  then have 4: "fst s4 (TarName ha) = Some \<lparr>Count = 2, Inode = randInt32 env (snd s1)\<rparr>"
    by (simp add: target)
  have 5: "fst s5 (TarName ha) = Some \<lparr>Count = 2, Inode = randInt32 env (snd s1)\<rparr>"
    unfolding s5_def using foldl_countStep_untouched[OF post] 4 by simp
  have "foldl (countStep env) (Map.empty, 0) (pre @ [(ha, da)] @ mid @ [(hb, db)] @ post) = s5"
    unfolding s5_def s4_def s3_def s2_def s1_def by simp
  with 5 show ?thesis by blast
qed

lemma archived_reg:
  assumes "Typeflag h = TypeReg" and "fileCount (TarName h) = Some c"
  shows "archived env fileCount (h, d) =
     [((baseHeader env h)\<lparr>CpioMode := CpioMode (baseHeader env h) OR cpio_TypeReg,
                            CpioLinkname := TarLinkname h,
                            CpioSize := TarSize h,
                            CpioLinks := Count c, CpioInode := Inode c\<rparr>, d)]"
  using assms unfolding archived_def convertEntry_def by (simp add: Let_def)

lemma archived_link:
  assumes "Typeflag h = TypeLink" and "fileCount (TarLinkname h) = Some c"
  shows "archived env fileCount (h, d) =
     [((baseHeader env h)\<lparr>CpioMode := CpioMode (baseHeader env h) OR cpio_TypeReg,
                            CpioLinkname := TarLinkname h,
                            CpioSize := 0,
                            CpioLinks := Count c, CpioInode := Inode c\<rparr>, [])]"
  using assms unfolding archived_def convertEntry_def by (simp add: Let_def)

text \<open>
  Claim C7, amended. Let the tar stream hold a regular file \<open>a\<close> and, after it, a
  hard link \<open>b\<close> whose \<open>Linkname\<close> is the name of \<open>a\<close>, and let no other entry
  of the stream be a regular file named \<open>a\<close> or a hard link to \<open>a\<close>. When the tar
  can be read and the writer accepts what it is given, the archive has an entry for
  \<open>a\<close> and one for \<open>b\<close> with the same inode number and link count 2; the entry
  of \<open>a\<close> carries the payload, the entry of \<open>b\<close> has size 0, no bytes, and the
  path of \<open>a\<close> as its \<open>Linkname\<close>. When the stream holds nothing else, these two
  entries are the whole archive, so the payload is there once.
\<close>

theorem hard_link_pair_shares_inode:
  assumes reg: "Typeflag ha = TypeReg"
    and link: "Typeflag hb = TypeLink"
    and target: "TarLinkname hb = TarName ha"
    and others: "\<forall>e\<in>set (pre @ mid @ post). \<not> touches (TarName ha) e"
    and wh: "\<forall>h. WriteHeader env h = None"
    and wd: "\<forall>h bytes. Write env h bytes = None"
    and seek: "Seek env = None"
  shows "\<exists>archive inode.
      packTar env (map Inr (pre @ [(ha, da)] @ mid @ [(hb, db)] @ post)) = Inr archive
    \<and> ((baseHeader env ha)\<lparr>CpioMode := CpioMode (baseHeader env ha) OR cpio_TypeReg,
                            CpioLinkname := TarLinkname ha,
                            CpioSize := TarSize ha,
                            CpioLinks := 2, CpioInode := inode\<rparr>, da) \<in> set archive
    \<and> ((baseHeader env hb)\<lparr>CpioMode := CpioMode (baseHeader env hb) OR cpio_TypeReg,
                            CpioLinkname := TarName ha,
                            CpioSize := 0,
                            CpioLinks := 2, CpioInode := inode\<rparr>, []) \<in> set archive
    \<and> (pre @ mid @ post = [] \<longrightarrow>
         archive =
           [((baseHeader env ha)\<lparr>CpioMode := CpioMode (baseHeader env ha) OR cpio_TypeReg,
                            CpioLinkname := TarLinkname ha,
                            CpioSize := TarSize ha,
                            CpioLinks := 2, CpioInode := inode\<rparr>, da),
            ((baseHeader env hb)\<lparr>CpioMode := CpioMode (baseHeader env hb) OR cpio_TypeReg,
                            CpioLinkname := TarName ha,
                            CpioSize := 0,
                            CpioLinks := 2, CpioInode := inode\<rparr>, [])])"
proof -
  let ?es = "pre @ [(ha, da)] @ mid @ [(hb, db)] @ post"
  define fileCount where "fileCount = fst (foldl (countStep env) (Map.empty, 0) ?es)"
  obtain inode where fc: "fileCount (TarName ha) = Some \<lparr>Count = 2, Inode = inode\<rparr>"
    unfolding fileCount_def using fileCount_of_pair[OF reg link target others] by blast
  define ea where "ea = ((baseHeader env ha)\<lparr>CpioMode := CpioMode (baseHeader env ha) OR cpio_TypeReg,
                            CpioLinkname := TarLinkname ha,
                            CpioSize := TarSize ha,
                            CpioLinks := 2, CpioInode := inode\<rparr>, da)"
  define eb where "eb = ((baseHeader env hb)\<lparr>CpioMode := CpioMode (baseHeader env hb) OR cpio_TypeReg,
                            CpioLinkname := TarName ha,
                            CpioSize := 0,
                            CpioLinks := 2, CpioInode := inode\<rparr>, ([]::string))"
  have a: "archived env fileCount (ha, da) = [ea]"
    unfolding ea_def
    using archived_reg[of ha fileCount "\<lparr>Count = 2, Inode = inode\<rparr>" env da] reg fc by simp
  have b: "archived env fileCount (hb, db) = [eb]"
    unfolding eb_def
    using archived_link[of hb fileCount "\<lparr>Count = 2, Inode = inode\<rparr>" env db] link fc target
    by simp
  define archive where "archive = concat (map (archived env fileCount) ?es)"
  have pack: "packTar env (map Inr ?es) = Inr archive"
    unfolding packTar_def archive_def fileCount_def
    by (simp only: countLinks_foldl convertEntries_archived[OF wh wd] seek
        sum.case option.case append_Nil)
  have ina: "ea \<in> set archive" and inb: "eb \<in> set archive"
    unfolding archive_def using a b by simp_all
  have exact: "pre @ mid @ post = [] \<longrightarrow> archive = [ea, eb]"
    unfolding archive_def using a b by simp
  from pack ina inb exact show ?thesis
    unfolding ea_def eb_def by blast
qed


theorem hard_link_pair_shares_inode_witness:
  "\<exists>inode. packTar pack_env_example [Inr (tar_a, ''data''), Inr (tar_b, [])] =
     Inr [(\<lparr>CpioName = ''./a'', CpioMode = 33188, CpioModTime = 1700000000, CpioSize = 4,
            CpioLinks = 2, CpioInode = inode, CpioLinkname = []\<rparr>, ''data''),
          (\<lparr>CpioName = ''./b'', CpioMode = 33188, CpioModTime = 1700000000, CpioSize = 0,
            CpioLinks = 2, CpioInode = inode, CpioLinkname = ''a''\<rparr>, [])]"
proof -
  have reg: "Typeflag tar_a = TypeReg" and link: "Typeflag tar_b = TypeLink"
    and target: "TarLinkname tar_b = TarName tar_a"
    by (simp_all add: tar_a_def tar_b_def)
  have others: "\<forall>e\<in>set ([] @ [] @ []). \<not> touches (TarName tar_a) e" by simp
  have wh: "\<forall>h. WriteHeader pack_env_example h = None"
    and wd: "\<forall>h bytes. Write pack_env_example h bytes = None"
    and seek: "Seek pack_env_example = None"
    by (simp_all add: pack_env_example_def)
  have ha: "(baseHeader pack_env_example tar_a)\<lparr>CpioMode := CpioMode (baseHeader pack_env_example tar_a) OR cpio_TypeReg,
                            CpioLinkname := TarLinkname tar_a,
                            CpioSize := TarSize tar_a,
                            CpioLinks := 2, CpioInode := inode\<rparr>
       = \<lparr>CpioName = ''./a'', CpioMode = 33188, CpioModTime = 1700000000, CpioSize = 4,
            CpioLinks = 2, CpioInode = inode, CpioLinkname = []\<rparr>" for inode
    by (simp add: baseHeader_def pack_env_example_def tar_a_def cpio_TypeReg_def)
  have hb: "(baseHeader pack_env_example tar_b)\<lparr>CpioMode := CpioMode (baseHeader pack_env_example tar_b) OR cpio_TypeReg,
                            CpioLinkname := TarName tar_a,
                            CpioSize := 0,
                            CpioLinks := 2, CpioInode := inode\<rparr>
       = \<lparr>CpioName = ''./b'', CpioMode = 33188, CpioModTime = 1700000000, CpioSize = 0,
            CpioLinks = 2, CpioInode = inode, CpioLinkname = ''a''\<rparr>" for inode
    by (simp add: baseHeader_def pack_env_example_def tar_a_def tar_b_def cpio_TypeReg_def)
  from hard_link_pair_shares_inode [OF reg link target others wh wd seek, of "''data''" "[]"]
  show ?thesis
    unfolding ha hb by auto
qed

text \<open>
  The claim as it is written, for every stream that contains \<open>a\<close> followed by a
  hard link to it, fails: with a second hard link \<open>c\<close> to \<open>a\<close> in the stream,
  pass 1 counts three links, and the entries of \<open>a\<close> and \<open>b\<close> (and of \<open>c\<close>)
  carry link count 3.
\<close>

theorem second_hard_link_counterexample:
  "packTar pack_env_example
     [Inr (tar_a, ''data''), Inr (tar_b, []), Inr (tar_b\<lparr>TarName := ''c''\<rparr>, [])] =
     Inr [(\<lparr>CpioName = ''./a'', CpioMode = 33188, CpioModTime = 1700000000, CpioSize = 4,
            CpioLinks = 3, CpioInode = 1804289383, CpioLinkname = []\<rparr>, ''data''),
          (\<lparr>CpioName = ''./b'', CpioMode = 33188, CpioModTime = 1700000000, CpioSize = 0,
            CpioLinks = 3, CpioInode = 1804289383, CpioLinkname = ''a''\<rparr>, []),
          (\<lparr>CpioName = ''./c'', CpioMode = 33188, CpioModTime = 1700000000, CpioSize = 0,
            CpioLinks = 3, CpioInode = 1804289383, CpioLinkname = ''a''\<rparr>, [])]"
  by code_simp

section \<open>Progress tree: the scheduler hands out only ready nodes\<close>

lemma length_filter_all: "length (filter P xs) = length xs \<Longrightarrow> \<forall>x\<in>set xs. P x"
proof (rule ccontr)
  assume len: "length (filter P xs) = length xs" and "\<not> (\<forall>x\<in>set xs. P x)"
  then obtain x where "x \<in> set xs" "\<not> P x" by blast
  then have "length (filter P xs) < length xs" by (rule length_filter_less)
  with len show False by arith
qed

lemma count_completed_all:
  "count_completed cs = length cs \<Longrightarrow> list_all (\<lambda>c. status c = StatusSuccess) cs"
  unfolding count_completed_def
  by (drule length_filter_all) (simp add: list_all_iff)

lemma nextReadyItem_ready:
  assumes items: "list_all ready_node items"
    and sub: "list_all ready_node sub"
  shows "list_all ready_node (nextReadyItem parallel items sub item)"
proof -
  have hdsub: "sub \<noteq> [] \<Longrightarrow> ready_node (hd sub)"
    using sub by (cases sub) simp_all
  have self: "(if length (children item) > 0 then count_completed (children item) else 0)
        = length (children item) \<Longrightarrow>
     status item = StatusPending \<or> status item = StatusRunningChild \<Longrightarrow> ready_node item"
    unfolding ready_node_def
    by (cases "children item = []") (simp_all add: count_completed_all)
  define items1 where "items1 = (if length (children item) > 0
                    then (if parallel then items @ sub
                          else if length sub > 0 then items @ [hd sub]
                          else items)
                    else items)"
  have i1: "list_all ready_node items1"
    unfolding items1_def using items sub hdsub by simp
  have eq: "nextReadyItem parallel items sub item =
     (if length sub = 0
            \<and> (if length (children item) > 0 then count_failed (children item) else 0) = 0
            \<and> (parallel \<or> (length items1 = 0 \<and> \<not> parallel))
            \<and> (if length (children item) > 0 then count_completed (children item) else 0)
                 = length (children item)
            \<and> (status item = StatusPending \<or> status item = StatusRunningChild)
         then items1 @ [item]
         else items1)"
    unfolding nextReadyItem_def Let_def items1_def by (rule refl)
  show ?thesis
  proof (cases "(if length (children item) > 0 then count_completed (children item) else 0)
                 = length (children item)
            \<and> (status item = StatusPending \<or> status item = StatusRunningChild)")
    case True
    then have "ready_node item" using self by blast
    with i1 show ?thesis unfolding eq by simp
  next
    case False
    with i1 show ?thesis unfolding eq by auto
  qed
qed

lemma nextReadyLoop_ready:
  "list_all ready_node items \<Longrightarrow> list_all ready_node (nextReadyLoop parallel items tree)"
proof (induction parallel items tree rule: nextReadyLoop.induct)
  case (1 parallel items)
  then show ?case by simp
next
  case (2 parallel items l r st cs rest)
  define sub where "sub = (if length cs > 0 then nextReadyLoop parallel [] cs else [])"
  have sub: "list_all ready_node sub"
  proof (cases "length cs > 0")
    case True
    have "list_all ready_node (nextReadyLoop parallel [] cs)"
      by (rule "2.IH"(1)[OF True]) simp
    with True show ?thesis by (simp add: sub_def)
  next
    case False
    then show ?thesis by (simp add: sub_def)
  qed
  have "list_all ready_node (nextReadyItem parallel items sub (ProcessTreeItem l r st cs))"
    by (rule nextReadyItem_ready[OF "2.prems" sub])
  then have "list_all ready_node (nextReadyLoop parallel
       (nextReadyItem parallel items sub (ProcessTreeItem l r st cs)) rest)"
    unfolding sub_def by (rule "2.IH"(2))
  then show ?case
    unfolding sub_def by (simp only: nextReadyLoop.simps)
qed

text \<open>
  Claim C8. Whatever the tree and the mode, every node that \<open>getNextReadyChildren\<close>
  returns has all of its children in \<open>StatusSuccess\<close> and is itself in
  \<open>StatusPending\<close> or \<open>StatusRunningChild\<close>; so a node with a child in
  \<open>StatusFailed\<close> or \<open>StatusFailedChild\<close> is never returned.
\<close>

theorem next_ready_only_when_children_succeeded:
  "item \<in> set (getNextReadyChildren parallel tree) \<Longrightarrow>
     (\<forall>c\<in>set (children item). status c = StatusSuccess)
     \<and> (status item = StatusPending \<or> status item = StatusRunningChild)
     \<and> \<not> (\<exists>c\<in>set (children item). status c = StatusFailed \<or> status c = StatusFailedChild)"
proof -
  assume a: "item \<in> set (getNextReadyChildren parallel tree)"
  have "list_all ready_node (getNextReadyChildren parallel tree)"
    unfolding getNextReadyChildren_def by (rule nextReadyLoop_ready) simp
  with a have "ready_node item" by (simp add: list_all_iff)
  then show ?thesis by (auto simp: ready_node_def list_all_iff)
qed

theorem next_ready_only_when_children_succeeded_witness:
  "ProcessTreeItem ''root'' ''r'' StatusPending
         [ProcessTreeItem ''a'' ''x'' StatusSuccess [], ProcessTreeItem ''b'' ''y'' StatusSuccess []]
     \<in> set (getNextReadyChildren True [ProcessTreeItem ''root'' ''r'' StatusPending
         [ProcessTreeItem ''a'' ''x'' StatusSuccess [], ProcessTreeItem ''b'' ''y'' StatusSuccess []]])
   \<and> list_all (\<lambda>c. status c = StatusSuccess)
        (children (ProcessTreeItem ''root'' ''r'' StatusPending
         [ProcessTreeItem ''a'' ''x'' StatusSuccess [], ProcessTreeItem ''b'' ''y'' StatusSuccess []]))"
proof -
  have h: "ProcessTreeItem ''root'' ''r'' StatusPending
         [ProcessTreeItem ''a'' ''x'' StatusSuccess [], ProcessTreeItem ''b'' ''y'' StatusSuccess []]
     \<in> set (getNextReadyChildren True [ProcessTreeItem ''root'' ''r'' StatusPending
         [ProcessTreeItem ''a'' ''x'' StatusSuccess [], ProcessTreeItem ''b'' ''y'' StatusSuccess []]])"
    by (simp add: getNextReadyChildren_def nextReadyItem_def count_failed_def
        count_completed_def Let_def)
  from next_ready_only_when_children_succeeded [OF h] h show ?thesis
    unfolding list_all_iff by blast
qed

section \<open>Compose orchestrator: which failures stop the service loop\<close>

lemma serviceStep_reached_prepare_fails:
  assumes "(find (\<lambda>machine. ContainerName service = MachineName machine) machines = None
            \<and> st1 = st)
       \<or> (\<exists>stale. find (\<lambda>machine. ContainerName service = MachineName machine) machines
                     = Some stale
             \<and> MachineStatus stale \<noteq> MachineStateRunning
             \<and> MachineStatus stale \<noteq> MachineStateCreated
             \<and> removeRun env (MachinePlatform stale) (ContainerName service) = None
             \<and> st1 = st\<lparr>projectMachines :=
                          removeFirst (MachineName stale) (projectMachines st)\<rparr>)"
    and "(if Image service = [] then buildService env service
          else ensureServiceIsPackaged env service) = Some err"
  shows "serviceStep env machines service st = (Some err, st1)"
  using assms unfolding serviceStep_def by (auto simp: Let_def)

lemma serviceStep_reached_create_fails:
  assumes "(find (\<lambda>machine. ContainerName service = MachineName machine) machines = None
            \<and> st1 = st)
       \<or> (\<exists>stale. find (\<lambda>machine. ContainerName service = MachineName machine) machines
                     = Some stale
             \<and> MachineStatus stale \<noteq> MachineStateRunning
             \<and> MachineStatus stale \<noteq> MachineStateCreated
             \<and> removeRun env (MachinePlatform stale) (ContainerName service) = None
             \<and> st1 = st\<lparr>projectMachines :=
                          removeFirst (MachineName stale) (projectMachines st)\<rparr>)"
    and "(if Image service = [] then buildService env service
          else ensureServiceIsPackaged env service) = None"
    and "createService env service = Some err"
    and "machineGet env (ContainerName service) = Inr machine"
  shows "serviceStep env machines service st =
     (None, st1\<lparr>attempted := attempted st1 @ [Name service],
               logged := logged st1 @ [''failed to create service '' @ Name service],
               projectMachines := (if MachineStatus machine = MachineStateCreated
                                   then projectMachines st1 @ [MachineName machine]
                                   else projectMachines st1)\<rparr>)"
  using assms unfolding serviceStep_def by (auto simp: Let_def)

text \<open>
  Claim C9, as the code has it. Take a service that the loop does not skip as already
  running or created: either no machine has its container name, or the first machine
  of that name is in another state and was removed without error (the state \<open>st1\<close>
  is the loop's state when line 327 is reached). When the build (no image) or the
  packaging step (image given) fails, the loop returns that error at once, which is a
  \<open>return err\<close> of \<open>Run\<close>, and no later service is looked at; when
  \<open>createService\<close> fails, the failure is only logged and, once the machine query has
  answered, the loop goes on with the remaining services.
\<close>

theorem create_loop_failure_semantics:
  assumes "(find (\<lambda>machine. ContainerName service = MachineName machine) machines = None
            \<and> st1 = st)
       \<or> (\<exists>stale. find (\<lambda>machine. ContainerName service = MachineName machine) machines
                     = Some stale
             \<and> MachineStatus stale \<noteq> MachineStateRunning
             \<and> MachineStatus stale \<noteq> MachineStateCreated
             \<and> removeRun env (MachinePlatform stale) (ContainerName service) = None
             \<and> st1 = st\<lparr>projectMachines :=
                          removeFirst (MachineName stale) (projectMachines st)\<rparr>)"
  shows "((if Image service = [] then buildService env service
           else ensureServiceIsPackaged env service) = Some err
          \<longrightarrow> serviceLoop env machines (service # rest) st = (Some err, st1))
       \<and> ((if Image service = [] then buildService env service
           else ensureServiceIsPackaged env service) = None
          \<and> createService env service = Some err'
          \<and> machineGet env (ContainerName service) = Inr machine
          \<longrightarrow> serviceLoop env machines (service # rest) st =
              serviceLoop env machines rest
                (st1\<lparr>attempted := attempted st1 @ [Name service],
                    logged := logged st1 @ [''failed to create service '' @ Name service],
                    projectMachines := (if MachineStatus machine = MachineStateCreated
                                   then projectMachines st1 @ [MachineName machine]
                                   else projectMachines st1)\<rparr>))"
  using serviceStep_reached_prepare_fails[OF assms, of err]
        serviceStep_reached_create_fails[OF assms, of err' machine]
  by simp

theorem create_loop_failure_semantics_witness:
  "serviceLoop create_env_example [] [svc_app, svc_db] empty_LoopState
     = (Some (Error ''build failed''), empty_LoopState)
   \<and> serviceLoop create_env_example [] [svc_web, svc_db] empty_LoopState
     = (None, \<lparr>projectMachines = [''p-db''], logged = [''failed to create service web''],
               attempted = [''web'', ''db'']\<rparr>)
   \<and> serviceLoop create_env_example [stale_web] [svc_web, svc_db]
         \<lparr>projectMachines = [''p-web''], logged = [], attempted = []\<rparr>
     = (None, \<lparr>projectMachines = [''p-db''], logged = [''failed to create service web''],
               attempted = [''web'', ''db'']\<rparr>)"
proof -
  have nomachine: "\<And>s st. (find (\<lambda>machine. ContainerName s = MachineName machine) [] = None
            \<and> st = st)
       \<or> (\<exists>stale. find (\<lambda>machine. ContainerName s = MachineName machine) []
                     = Some stale
             \<and> MachineStatus stale \<noteq> MachineStateRunning
             \<and> MachineStatus stale \<noteq> MachineStateCreated
             \<and> removeRun create_env_example (MachinePlatform stale) (ContainerName s) = None
             \<and> st = st\<lparr>projectMachines :=
                          removeFirst (MachineName stale) (projectMachines st)\<rparr>)"
    by simp
  have stale: "(find (\<lambda>machine. ContainerName svc_web = MachineName machine) [stale_web] = None
            \<and> empty_LoopState = \<lparr>projectMachines = [''p-web''], logged = [], attempted = []\<rparr>)
       \<or> (\<exists>stale. find (\<lambda>machine. ContainerName svc_web = MachineName machine) [stale_web]
                     = Some stale
             \<and> MachineStatus stale \<noteq> MachineStateRunning
             \<and> MachineStatus stale \<noteq> MachineStateCreated
             \<and> removeRun create_env_example (MachinePlatform stale) (ContainerName svc_web) = None
             \<and> empty_LoopState = \<lparr>projectMachines = [''p-web''], logged = [], attempted = []\<rparr>
                  \<lparr>projectMachines := removeFirst (MachineName stale)
                      (projectMachines \<lparr>projectMachines = [''p-web''], logged = [], attempted = []\<rparr>)\<rparr>)"
    by (simp add: svc_web_def stale_web_def create_env_example_def empty_LoopState_def)
  have app: "(if Image svc_app = [] then buildService create_env_example svc_app
           else ensureServiceIsPackaged create_env_example svc_app) = Some (Error ''build failed'')"
    by (simp add: svc_app_def buildService_def create_env_example_def)
  have web: "(if Image svc_web = [] then buildService create_env_example svc_web
           else ensureServiceIsPackaged create_env_example svc_web) = None
          \<and> createService create_env_example svc_web = Some (Error ''run failed'')
          \<and> machineGet create_env_example (ContainerName svc_web)
              = Inr \<lparr>MachineName = ''p-web'', MachineStatus = MachineStateUnknown,
                      MachinePlatform = ''qemu''\<rparr>"
    by (simp add: svc_web_def ensureServiceIsPackaged_def createService_def
        create_env_example_def splitImage_def Let_def)
  have db: "serviceLoop create_env_example machines
       [svc_db] \<lparr>projectMachines = [], logged = [''failed to create service web''],
               attempted = [''web'']\<rparr>
     = (None, \<lparr>projectMachines = [''p-db''], logged = [''failed to create service web''],
               attempted = [''web'', ''db'']\<rparr>)" if "machines = [] \<or> machines = [stale_web]" for machines
    using that
    by (auto simp: svc_db_def stale_web_def serviceStep_def ensureServiceIsPackaged_def
        createService_def create_env_example_def splitImage_def Let_def)
  from create_loop_failure_semantics [OF nomachine, of svc_app
         "Error ''build failed''" "[svc_db]" empty_LoopState] app
  have 1: "serviceLoop create_env_example [] [svc_app, svc_db] empty_LoopState
     = (Some (Error ''build failed''), empty_LoopState)"
    by blast
  have 3: "(empty_LoopState\<lparr>attempted := attempted empty_LoopState @ [Name svc_web],
           logged := logged empty_LoopState @ [''failed to create service '' @ Name svc_web],
           projectMachines := projectMachines empty_LoopState\<rparr>)
      = \<lparr>projectMachines = [], logged = [''failed to create service web''],
               attempted = [''web'']\<rparr>"
    by (simp add: empty_LoopState_def svc_web_def)
  from create_loop_failure_semantics [OF nomachine, of svc_web
         _ "[svc_db]" empty_LoopState "Error ''run failed''"] web
  have 2: "serviceLoop create_env_example [] [svc_web, svc_db] empty_LoopState
     = serviceLoop create_env_example [] [svc_db]
        \<lparr>projectMachines = [], logged = [''failed to create service web''],
               attempted = [''web'']\<rparr>"
    unfolding 3[symmetric] by simp
  from create_loop_failure_semantics [OF stale, of _ "[svc_db]" "Error ''run failed''"] web
  have 4: "serviceLoop create_env_example [stale_web] [svc_web, svc_db]
         \<lparr>projectMachines = [''p-web''], logged = [], attempted = []\<rparr>
     = serviceLoop create_env_example [stale_web] [svc_db]
        \<lparr>projectMachines = [], logged = [''failed to create service web''],
               attempted = [''web'']\<rparr>"
    unfolding 3[symmetric] by simp
  from 1 2 4 db show ?thesis by simp
qed

text \<open>
  The claim as it is written fails: the build of \<open>app\<close> fails, \<open>Run\<close> returns
  that error, and \<open>db\<close>, which the same loop creates without trouble when it runs
  alone, is never attempted.
\<close>

theorem build_failure_aborts_run_counterexample:
  "fst (serviceLoop create_env_example [] [svc_app, svc_db] empty_LoopState)
     = Some (Error ''build failed'')
   \<and> attempted (snd (serviceLoop create_env_example [] [svc_app, svc_db] empty_LoopState)) = []
   \<and> serviceLoop create_env_example [] [svc_db] empty_LoopState
     = (None, \<lparr>projectMachines = [''p-db''], logged = [], attempted = [''db'']\<rparr>)"
  by (simp add: svc_app_def svc_db_def empty_LoopState_def serviceStep_def buildService_def
      ensureServiceIsPackaged_def createService_def create_env_example_def splitImage_def
      Let_def)

end
